theory Spec2Isabelle
  imports Main "HOL-Library.Word"
begin

section \<open>ESP32 Network Blocker (version 1): Controller and Switchbox\<close>

text \<open>
  A shallow embedding of the sketch \<^verbatim>\<open>ESP32 Network Blocker (version 1)\<close>: the
  globals of the sketch are the fields of one record, every function of the sketch
  is a function from state to state, and everything the sketch does to the outside
  (the relay and LED pins, the serial port, the ESP-NOW sends) is recorded in the
  state as well. What the outside does to the sketch (the levels of the input
  pins, whether the radio accepts a packet, the callbacks the radio invokes) is
  read from an environment.
\<close>

subsection \<open>Types of the sketch\<close>

datatype transmission_Type =
    requestNetworkStatus
  | networkStatusReply
  | requestSwitchboxStatus
  | switchboxStatusReply
  | requestControllerBlockNetwork
  | requestControllerUnblockNetwork

datatype device_Status = blocked | unblocked | unknown

record transmission_Structure =
  transmission :: transmission_Type
  status :: device_Status

text \<open>A callback of the ESP-NOW driver: a send completed (with success or not), or
  a packet arrived.\<close>

datatype radio_event = DataSent bool | DataRecv transmission_Structure

subsection \<open>User settings and constants\<close>

text \<open>
  The four user settings are compile-time constants of the sketch
  (\<^verbatim>\<open>useASwitchbox = true\<close> and so on); they are fields of the environment here, so
  that every build is covered. The rest of the environment is the physical world:
  \<^item> \<open>pinLevel env t p\<close> is what \<^verbatim>\<open>digitalRead(p)\<close> returns at time \<open>t\<close> (milliseconds);
  \<^item> \<open>sendResult env k\<close> says whether the \<open>k\<close>-th call of \<^verbatim>\<open>esp_now_send\<close> returns
    \<^verbatim>\<open>ESP_OK\<close>;
  \<^item> \<open>radio env t\<close> lists the callbacks the ESP-NOW driver invokes during
    millisecond \<open>t\<close>;
  \<^item> \<open>espNowInitOK\<close> and \<open>addPeerOK\<close> are the results of \<^verbatim>\<open>esp_now_init\<close> and
    \<^verbatim>\<open>esp_now_add_peer\<close>;
  \<^item> \<open>macText\<close> is the text \<^verbatim>\<open>WiFi.macAddress()\<close> prints for an address.
\<close>

record env =
  useASwitchbox :: bool
  useOnboardLED :: bool
  useExternalLED :: bool
  useLongRange :: bool
  pinLevel :: "nat \<Rightarrow> int \<Rightarrow> int"
  sendResult :: "nat \<Rightarrow> bool"
  radio :: "nat \<Rightarrow> radio_event list"
  espNowInitOK :: bool
  addPeerOK :: bool
  factoryMAC :: "8 word list"
  macText :: "8 word list \<Rightarrow> string"

definition controllerNormallyOpenedConnectionPin :: int where
  "controllerNormallyOpenedConnectionPin = 18"

definition controllerNormallyClosedConnectionPin :: int where
  "controllerNormallyClosedConnectionPin = 19"

definition controllerRelayConnectionPin :: int where
  "controllerRelayConnectionPin = 23"

definition swtichboxNormallyOpenedConnectionPin :: int where
  "swtichboxNormallyOpenedConnectionPin = 21"

definition swichboxNormallyClosedConnectionPin :: int where
  "swichboxNormallyClosedConnectionPin = 22"

definition onboardLEDPin :: int where
  "onboardLEDPin = 2"

definition externalLEDPin :: int where
  "externalLEDPin = 5"

definition LOW :: int where
  "LOW = 0"

definition HIGH :: int where
  "HIGH = 1"

definition FlashRateOfTheLEDWhenThereIsACommunicationsProblemBetweenTheControllerAndSwitch :: int where
  "FlashRateOfTheLEDWhenThereIsACommunicationsProblemBetweenTheControllerAndSwitch = 333"

definition FlashRateOfTheLEDWhenThereIsAWiringProblem :: int where
  "FlashRateOfTheLEDWhenThereIsAWiringProblem = 1000"

definition FlashRateOfTheLEDWhenTheESPNOWFailedToInitialize :: int where
  "FlashRateOfTheLEDWhenTheESPNOWFailedToInitialize = 3000"

text \<open>\<^verbatim>\<open>unsigned long\<close> has 32 bits on the ESP32: sums of times wrap around.\<close>

definition touchBaseTimePeriodWhenAllIsGood :: "32 word" where
  "touchBaseTimePeriodWhenAllIsGood = 30000"

definition touchBaseTimePeriodWhenThereIsAKnownProblem :: "32 word" where
  "touchBaseTimePeriodWhenThereIsAKnownProblem = 5000"

definition touchbaseOffsetsForSwitchbox :: "32 word" where
  "touchbaseOffsetsForSwitchbox = 1500"

definition controllerMACAddress :: "8 word list" where
  "controllerMACAddress = [0x40, 0x22, 0xD8, 0xEB, 0x3A, 0x00]"

definition remoteSwitchMACAddress :: "8 word list" where
  "remoteSwitchMACAddress = [0x40, 0x22, 0xD8, 0xEB, 0x3A, 0x01]"

subsection \<open>The state: the globals of the sketch and its outputs\<close>

datatype pin_mode = INPUT_PULLUP | OUTPUT

record state =
  FlashRateOfTheLED :: int
  nextTouchBaseTimeTarget :: "32 word"
  thisIsTheController :: bool
  thisIsTheSwitchbox :: bool
  ControllerSwitchStatus :: device_Status
  SwitchBoxSwitchStatus :: device_Status
  NetworkStatus :: device_Status
  packedSentSuccesfully :: bool
  peerAddr :: "8 word list"
  lastSwitchBoxSwitchStatus :: device_Status
  lastControllerSwitchStatus :: device_Status
  LEDIsOn :: bool
  nextFlashCycle :: "32 word"
  now :: nat
  gpioOut :: "int \<Rightarrow> int"
  gpioMode :: "int \<Rightarrow> pin_mode option"
  serial :: "string list"
  sent :: "(8 word list \<times> transmission_Structure) list"
  sendCb :: bool
  recvCb :: bool
  macAddress :: "8 word list"
  serialBaud :: "nat option"

text \<open>
  \<open>lastSwitchBoxSwitchStatus\<close>, \<open>lastControllerSwitchStatus\<close>, \<open>LEDIsOn\<close> and
  \<open>nextFlashCycle\<close> are the \<^verbatim>\<open>static\<close> locals of \<^verbatim>\<open>requestANetworkChangeAsNeeded\<close>,
  \<^verbatim>\<open>actionANetworkChangeAsNeeded\<close> and \<^verbatim>\<open>LEDUpdateAsRequried\<close>. \<open>now\<close> is the time
  since boot in milliseconds, \<open>gpioOut\<close> the level last written to each pin,
  \<open>serial\<close> the chunks written to the serial port, \<open>sent\<close> the packets handed to
  \<^verbatim>\<open>esp_now_send\<close>, \<open>sendCb\<close> and \<open>recvCb\<close> whether the two callbacks are registered,
  \<open>peerAddr\<close> the address in \<^verbatim>\<open>peerInfo\<close>, \<open>macAddress\<close> the address of the station
  interface and \<open>serialBaud\<close> the speed given to \<^verbatim>\<open>Serial.begin\<close>.
\<close>

subsection \<open>The Arduino primitives\<close>

definition millis :: "state \<Rightarrow> 32 word" where
  "millis s = word_of_nat (now s)"

definition digitalRead :: "env \<Rightarrow> int \<Rightarrow> state \<Rightarrow> int" where
  "digitalRead e p s = pinLevel e (now s) p"

definition digitalWrite :: "int \<Rightarrow> int \<Rightarrow> state \<Rightarrow> state" where
  "digitalWrite p v s = s\<lparr>gpioOut := (gpioOut s)(p := v)\<rparr>"

definition pinMode :: "int \<Rightarrow> pin_mode \<Rightarrow> state \<Rightarrow> state" where
  "pinMode p m s = s\<lparr>gpioMode := (gpioMode s)(p := Some m)\<rparr>"

definition Serial_print :: "string \<Rightarrow> state \<Rightarrow> state" where
  "Serial_print t s = s\<lparr>serial := serial s @ [t]\<rparr>"

definition Serial_println :: "string \<Rightarrow> state \<Rightarrow> state" where
  "Serial_println t s = s\<lparr>serial := serial s @ [t @ [CHR 0x0D, CHR 0x0A]]\<rparr>"

text \<open>\<^verbatim>\<open>esp_now_send\<close>: the packet is recorded; the environment decides whether the
  call returns \<^verbatim>\<open>ESP_OK\<close>.\<close>

definition esp_now_send ::
  "env \<Rightarrow> 8 word list \<Rightarrow> transmission_Structure \<Rightarrow> state \<Rightarrow> bool \<times> state" where
  "esp_now_send e dest m s = (sendResult e (length (sent s)), s\<lparr>sent := sent s @ [(dest, m)]\<rparr>)"

text \<open>
  \<^verbatim>\<open>delay\<close> depends on the task that calls it. The callbacks run on the task of the
  radio driver, which invokes them one at a time: a \<^verbatim>\<open>delay\<close> inside a callback only
  lets time pass. The functions of the sketch that are called from both tasks take
  the \<^verbatim>\<open>delay\<close> of their task as the parameter \<open>dl\<close>.
\<close>

definition delay_cb :: "nat \<Rightarrow> state \<Rightarrow> state" where
  "delay_cb n s = s\<lparr>now := now s + n\<rparr>"

subsection \<open>The send-completion callback\<close>

definition OnDataSent :: "env \<Rightarrow> bool \<Rightarrow> state \<Rightarrow> state" where
  "OnDataSent e success s =
     (let s1 = s\<lparr>packedSentSuccesfully := success\<rparr> in
      if packedSentSuccesfully s1 then
        (let s2 = s1\<lparr>FlashRateOfTheLED := 0\<rparr> in
         if thisIsTheController s2
         then s2\<lparr>nextTouchBaseTimeTarget := millis s2 + touchBaseTimePeriodWhenAllIsGood\<rparr>
         else s2\<lparr>nextTouchBaseTimeTarget :=
                   millis s2 + touchBaseTimePeriodWhenAllIsGood + touchbaseOffsetsForSwitchbox\<rparr>)
      else
        (let s2 = s1\<lparr>FlashRateOfTheLED :=
                    FlashRateOfTheLEDWhenThereIsACommunicationsProblemBetweenTheControllerAndSwitch\<rparr>;
             s3 = (if thisIsTheController s2
                   then s2\<lparr>nextTouchBaseTimeTarget :=
                             millis s2 + touchBaseTimePeriodWhenThereIsAKnownProblem\<rparr>
                   else s2\<lparr>nextTouchBaseTimeTarget :=
                             millis s2 + touchBaseTimePeriodWhenThereIsAKnownProblem
                               + touchbaseOffsetsForSwitchbox\<rparr>)
         in Serial_println ''OnDataSent delivery failed'' s3))"

subsection \<open>Debounced reading of the Emergency Stop button\<close>

definition checkEmergencyStopButton :: "(nat \<Rightarrow> state \<Rightarrow> state) \<Rightarrow> env \<Rightarrow> state \<Rightarrow> state" where
  "checkEmergencyStopButton dl e s =
     (let normallyClosedConnectionPin =
            (if thisIsTheController s then controllerNormallyClosedConnectionPin
             else swichboxNormallyClosedConnectionPin);
          normallyOpenedConnectionPin =
            (if thisIsTheController s then controllerNormallyOpenedConnectionPin
             else swtichboxNormallyOpenedConnectionPin);
          (normallyClosedConnectionIsOpened, normallyOpenedConnectionIsClosed, s3) =
            (if digitalRead e normallyClosedConnectionPin s \<noteq> 0 then
               (let s1 = dl 10 s in
                if digitalRead e normallyClosedConnectionPin s1 \<noteq> 0 then
                  (if digitalRead e normallyOpenedConnectionPin s1 = 0 then
                     (let s2 = dl 10 s1 in
                      if digitalRead e normallyOpenedConnectionPin s2 = 0
                      then (True, True, s2)
                      else (True, False, s2))
                   else (True, False, s1))
                else (False, False, s1))
             else (False, False, s))
      in if thisIsTheController s3 then
           (if normallyClosedConnectionIsOpened \<and> normallyOpenedConnectionIsClosed
            then s3\<lparr>ControllerSwitchStatus := blocked\<rparr>
            else s3\<lparr>ControllerSwitchStatus := unblocked\<rparr>)
         else
           (if normallyClosedConnectionIsOpened \<and> normallyOpenedConnectionIsClosed
            then s3\<lparr>SwitchBoxSwitchStatus := blocked\<rparr>
            else s3\<lparr>SwitchBoxSwitchStatus := unblocked\<rparr>))"

subsection \<open>Sending status to the peer\<close>

definition provideTheControllerTheSwitchboxStatus ::
  "(nat \<Rightarrow> state \<Rightarrow> state) \<Rightarrow> env \<Rightarrow> state \<Rightarrow> state" where
  "provideTheControllerTheSwitchboxStatus dl e s =
     (if \<not> thisIsTheSwitchbox s then
        Serial_println
          ''error: provideTheControllerTheSwitchboxStatus should only be invoked by the thisIsTheSwitchbox'' s
      else
        (let s1 = checkEmergencyStopButton dl e s;
             outgoingTransmission =
               \<lparr>transmission = switchboxStatusReply, status = SwitchBoxSwitchStatus s1\<rparr>;
             s2 = Serial_print ''The Switchbox is providing the Controller with a switch status of '' s1;
             s3 = (if SwitchBoxSwitchStatus s2 = blocked then Serial_println ''blocked'' s2
                   else Serial_println ''unblocked'' s2);
             (ok, s4) = esp_now_send e controllerMACAddress outgoingTransmission s3
         in if ok then
              (let s5 = dl 10 s4 in
               if \<not> packedSentSuccesfully s5
               then Serial_println ''Switch status was not sent to the Controller'' s5
               else s5)
            else
              Serial_println ''Switch status was not sent to the Controller''
                (s4\<lparr>FlashRateOfTheLED :=
                     FlashRateOfTheLEDWhenThereIsACommunicationsProblemBetweenTheControllerAndSwitch\<rparr>)))"

definition provideTheSwitchboxTheNetworkStatus ::
  "(nat \<Rightarrow> state \<Rightarrow> state) \<Rightarrow> env \<Rightarrow> state \<Rightarrow> state" where
  "provideTheSwitchboxTheNetworkStatus dl e s =
     (if \<not> thisIsTheController s then
        Serial_println
          ''error: provideTheSwitchboxTheNetworkStatus should only be invoked by the Controller'' s
      else
        (let s1 = Serial_println ''Providing network status to the switchbox'' s;
             outgoingTransmission =
               \<lparr>transmission = networkStatusReply, status = NetworkStatus s1\<rparr>;
             s2 = (if NetworkStatus s1 = blocked
                   then Serial_println ''Controller says the network is blocked'' s1
                   else Serial_println ''Controller says the network is unblocked'' s1);
             (ok, s3) = esp_now_send e remoteSwitchMACAddress outgoingTransmission s2
         in if ok then
              (let s4 = dl 10 s3 in
               if \<not> packedSentSuccesfully s4
               then Serial_println ''Network status was not sent to the Switchbox'' s4
               else s4)
            else
              Serial_println ''Network status was not sent to the Switchbox''
                (s3\<lparr>FlashRateOfTheLED :=
                     FlashRateOfTheLEDWhenThereIsACommunicationsProblemBetweenTheControllerAndSwitch\<rparr>)))"

subsection \<open>Asking the Switchbox for its status\<close>

text \<open>
  The loop \<^verbatim>\<open>while ((millis() < timeout) & (SwitchBoxSwitchStatus == unknown)) delay(10);\<close>
  of \<^verbatim>\<open>requestTheSwitchboxStatus\<close>. With \<^verbatim>\<open>timeout = millis() + 2000\<close> and steps of
  10 ms the clock equals \<open>timeout\<close> after 200 rounds, so the loop is unrolled at
  most 200 times; lemma \<open>waitForTheSwitchboxReply_done\<close> below shows that the
  loop condition is false when the unrolling stops.
\<close>

fun waitForTheSwitchboxReply ::
  "nat \<Rightarrow> (nat \<Rightarrow> state \<Rightarrow> state) \<Rightarrow> 32 word \<Rightarrow> state \<Rightarrow> state" where
  "waitForTheSwitchboxReply 0 dl timeout s = s"
| "waitForTheSwitchboxReply (Suc k) dl timeout s =
     (if millis s < timeout \<and> SwitchBoxSwitchStatus s = unknown
      then waitForTheSwitchboxReply k dl timeout (dl 10 s)
      else s)"

definition requestTheSwitchboxStatus ::
  "(nat \<Rightarrow> state \<Rightarrow> state) \<Rightarrow> env \<Rightarrow> state \<Rightarrow> state" where
  "requestTheSwitchboxStatus dl e s =
     (if \<not> thisIsTheController s then
        Serial_println
          ''error: requestTheSwitchboxStatus should only be invoked by the Controller'' s
      else
        (let outgoingTransmission = \<lparr>transmission = requestSwitchboxStatus, status = unknown\<rparr>;
             s1 = s\<lparr>SwitchBoxSwitchStatus := unknown\<rparr>;
             (ok, s2) = esp_now_send e remoteSwitchMACAddress outgoingTransmission s1;
             s5 = (if ok then
                     (let s3 = dl 10 s2 in
                      if packedSentSuccesfully s3 then
                        (let timeout = millis s3 + 2000 in
                         waitForTheSwitchboxReply 200 dl timeout s3)
                      else s3)
                   else s2)
         in if SwitchBoxSwitchStatus s5 = blocked then
              Serial_println ''Switchbox switch is blocked'' s5
            else if SwitchBoxSwitchStatus s5 = unblocked then
              Serial_println ''Switchbox switch is unblock'' s5
            else if SwitchBoxSwitchStatus s5 = unknown then
              (Serial_println ''Did not receive a reply from the Switchbox as to its status'' s5)
                \<lparr>FlashRateOfTheLED :=
                   FlashRateOfTheLEDWhenThereIsACommunicationsProblemBetweenTheControllerAndSwitch\<rparr>
            else s5))"

subsection \<open>The actuation gate\<close>

definition BlockNetwork ::
  "(nat \<Rightarrow> state \<Rightarrow> state) \<Rightarrow> env \<Rightarrow> bool \<Rightarrow> bool \<Rightarrow> state \<Rightarrow> state" where
  "BlockNetwork dl e blockNow RequestCameFromController s =
     (if \<not> thisIsTheController s then
        Serial_println ''error: BlockNetwork should only be invoked by the Controller'' s
      else
        (let s1 = (if blockNow then Serial_print ''incoming block request'' s
                   else Serial_print ''incoming unblock request'' s)
         in if blockNow \<and> NetworkStatus s1 = blocked then
              Serial_println
                ''a request to block network was ignored as the network is already blocked'' s1
            else if \<not> blockNow \<and> NetworkStatus s1 = unblocked then
              Serial_println
                ''a request to unblock network was ignored as the network is already unblocked'' s1
            else
              (let (returned, s4) =
                     (if useASwitchbox e then
                        (if \<not> blockNow then
                           (let s2 = s1\<lparr>SwitchBoxSwitchStatus := unknown\<rparr>;
                                s3 = (if RequestCameFromController
                                      then requestTheSwitchboxStatus dl e s2
                                      else s2)
                            in if ControllerSwitchStatus s3 = blocked then
                                 (True, Serial_println
                                    ''a request from the Switchbox to unblock network was denied as the Controller is requesting the network be blocked'' s3)
                               else if SwitchBoxSwitchStatus s3 = blocked then
                                 (True, Serial_println
                                    ''a request from the Controller to unblock network was denied as the Switchbox is requesting the network be blocked'' s3)
                               else (False, s3))
                         else (False, s1))
                      else (False, s1))
               in if returned then s4
                  else if blockNow then
                    Serial_println ''Network blocked''
                      ((digitalWrite controllerRelayConnectionPin HIGH s4)\<lparr>NetworkStatus := blocked\<rparr>)
                  else
                    Serial_println ''Network unblocked''
                      ((digitalWrite controllerRelayConnectionPin LOW s4)\<lparr>NetworkStatus := unblocked\<rparr>))))"

subsection \<open>The Switchbox asks for a change; the Controller actions one\<close>

definition requestToBlockOrUnblockNetwork ::
  "(nat \<Rightarrow> state \<Rightarrow> state) \<Rightarrow> env \<Rightarrow> bool \<Rightarrow> state \<Rightarrow> state" where
  "requestToBlockOrUnblockNetwork dl e networkShouldBeBlocked s =
     (if \<not> thisIsTheSwitchbox s then
        Serial_println
          ''error: requestToBlockOrUnblockNetwork should only be invoked by the Switchbox'' s
      else
        (let (kind, s1) =
               (if networkShouldBeBlocked then
                  (requestControllerBlockNetwork,
                   Serial_println ''The Switchbox is asking the Controller to block the network'' s)
                else
                  (requestControllerUnblockNetwork,
                   Serial_println ''The Switchbox is asking the Controller to unblock the network'' s));
             outgoingTransmission = \<lparr>transmission = kind, status = unknown\<rparr>;
             (ok, s2) = esp_now_send e controllerMACAddress outgoingTransmission s1
         in if ok then
              (let s3 = dl 10 s2 in
               if \<not> packedSentSuccesfully s3
               then Serial_println ''update request failed, refresh not requested'' s3
               else s3)
            else
              Serial_println ''update request failed, refresh not requested''
                (s2\<lparr>FlashRateOfTheLED :=
                     FlashRateOfTheLEDWhenThereIsACommunicationsProblemBetweenTheControllerAndSwitch\<rparr>)))"

definition requestANetworkChangeAsNeeded ::
  "(nat \<Rightarrow> state \<Rightarrow> state) \<Rightarrow> env \<Rightarrow> state \<Rightarrow> state" where
  "requestANetworkChangeAsNeeded dl e s =
     (if \<not> thisIsTheSwitchbox s then
        Serial_println
          ''error: requestANetworkChangeAsNeeded should only be invoked by the Switchbox'' s
      else if SwitchBoxSwitchStatus s \<noteq> lastSwitchBoxSwitchStatus s then
        (let s1 = s\<lparr>lastSwitchBoxSwitchStatus := SwitchBoxSwitchStatus s\<rparr> in
         if SwitchBoxSwitchStatus s1 = blocked
         then requestToBlockOrUnblockNetwork dl e True s1
         else requestToBlockOrUnblockNetwork dl e False s1)
      else s)"

definition actionANetworkChangeAsNeeded ::
  "(nat \<Rightarrow> state \<Rightarrow> state) \<Rightarrow> env \<Rightarrow> state \<Rightarrow> state" where
  "actionANetworkChangeAsNeeded dl e s =
     (if \<not> thisIsTheController s then
        Serial_println
          ''error: actionANetworkChangeAsNeeded should only be invoked by the Controller'' s
      else if ControllerSwitchStatus s \<noteq> lastControllerSwitchStatus s then
        (let s1 = s\<lparr>lastControllerSwitchStatus := ControllerSwitchStatus s\<rparr>;
             s2 = (if ControllerSwitchStatus s1 = blocked
                   then BlockNetwork dl e True True s1
                   else BlockNetwork dl e False True s1)
         in provideTheSwitchboxTheNetworkStatus dl e s2)
      else s)"

subsection \<open>The receive callback\<close>

text \<open>\<^verbatim>\<open>OnDataRecv\<close> runs on the task of the radio driver, so the functions it calls
  use \<open>delay_cb\<close>. The packet is the structure that \<^verbatim>\<open>memcpy\<close> fills.\<close>

definition OnDataRecv :: "env \<Rightarrow> transmission_Structure \<Rightarrow> state \<Rightarrow> state" where
  "OnDataRecv e incomingMessage s =
     (let s1 = s\<lparr>FlashRateOfTheLED := 0\<rparr>;
          s2 = (if thisIsTheController s1
                then s1\<lparr>nextTouchBaseTimeTarget := millis s1 + touchBaseTimePeriodWhenAllIsGood\<rparr>
                else s1\<lparr>nextTouchBaseTimeTarget :=
                          millis s1 + touchBaseTimePeriodWhenAllIsGood + touchbaseOffsetsForSwitchbox\<rparr>);
          unknownRequest = (\<lambda>s'.
            Serial_print ''Error: an unknown request was received''
              (s'\<lparr>FlashRateOfTheLED :=
                   FlashRateOfTheLEDWhenThereIsACommunicationsProblemBetweenTheControllerAndSwitch\<rparr>))
      in if thisIsTheController s2 then
           (if transmission incomingMessage = requestNetworkStatus then
              provideTheSwitchboxTheNetworkStatus delay_cb e
                (Serial_println
                   ''the Switchbox has requested the Contoller provide the network status'' s2)
            else if transmission incomingMessage = switchboxStatusReply then
              (let s3 = Serial_println
                          ''the Controller is receiving the status of the Switchbox's switch'' s2;
                   s4 = (if status incomingMessage = blocked
                         then Serial_println
                           ''The Controller has been told the Switchbox's switch is set to blocked'' s3
                         else Serial_println
                           ''The Controller has been told the Switchbox's switch is set to unblocked'' s3)
               in s4\<lparr>SwitchBoxSwitchStatus := status incomingMessage\<rparr>)
            else if transmission incomingMessage = requestControllerBlockNetwork then
              (let s3 = Serial_println
                          ''the Switchbox has requested the Contoller block the network'' s2;
                   s4 = s3\<lparr>SwitchBoxSwitchStatus := blocked\<rparr>;
                   s5 = BlockNetwork delay_cb e True False s4
               in provideTheSwitchboxTheNetworkStatus delay_cb e s5)
            else if transmission incomingMessage = requestControllerUnblockNetwork then
              (let s3 = Serial_println
                          ''the Switchbox has requested the Contoller unblock the network'' s2;
                   s4 = s3\<lparr>SwitchBoxSwitchStatus := unblocked\<rparr>;
                   s5 = BlockNetwork delay_cb e False False s4
               in provideTheSwitchboxTheNetworkStatus delay_cb e s5)
            else unknownRequest s2)
         else
           (if transmission incomingMessage = networkStatusReply then
              (let s3 = (if status incomingMessage = blocked
                         then Serial_println
                           ''The Switchbox has been told by the Controller the network status is blocked'' s2
                         else Serial_println
                           ''The Switchbox has been told by the Controller the network status is unblocked'' s2)
               in s3\<lparr>NetworkStatus := status incomingMessage\<rparr>)
            else if transmission incomingMessage = requestSwitchboxStatus then
              provideTheControllerTheSwitchboxStatus delay_cb e
                (Serial_println ''The Controller is requesting the Switchbox's status'' s2)
            else unknownRequest s2))"

subsection \<open>Waiting on the main task\<close>

text \<open>
  While the main task waits, the radio driver invokes the registered callbacks.
  A callback that the environment schedules for millisecond \<open>t\<close> starts with the
  clock at \<open>t\<close>; the time it spends in its own \<^verbatim>\<open>delay\<close> does not lengthen the wait
  of the main task.
\<close>

definition deliver :: "env \<Rightarrow> radio_event \<Rightarrow> state \<Rightarrow> state" where
  "deliver e ev s =
     (case ev of
        DataSent success \<Rightarrow> if sendCb s then OnDataSent e success s else s
      | DataRecv m \<Rightarrow> if recvCb s then OnDataRecv e m s else s)"

definition tick :: "env \<Rightarrow> state \<Rightarrow> state" where
  "tick e s =
     (let t = now s + 1
      in (foldl (\<lambda>s' ev. deliver e ev (s'\<lparr>now := t\<rparr>)) s (radio e t))\<lparr>now := t\<rparr>)"

fun delay :: "env \<Rightarrow> nat \<Rightarrow> state \<Rightarrow> state" where
  "delay e 0 s = s"
| "delay e (Suc n) s = delay e n (tick e s)"

subsection \<open>The periodic check of the link\<close>

definition periodicCheckToEnsureCommunicationsAreOK ::
  "(nat \<Rightarrow> state \<Rightarrow> state) \<Rightarrow> env \<Rightarrow> state \<Rightarrow> state" where
  "periodicCheckToEnsureCommunicationsAreOK dl e s =
     (if millis s > nextTouchBaseTimeTarget s then
        (let s1 = s\<lparr>nextTouchBaseTimeTarget := millis s + 2000\<rparr> in
         if thisIsTheController s1
         then provideTheSwitchboxTheNetworkStatus dl e s1
         else provideTheControllerTheSwitchboxStatus dl e s1)
      else s)"

subsection \<open>Start-up\<close>

definition setupSerial :: "state \<Rightarrow> state" where
  "setupSerial s = s\<lparr>serialBaud := Some 115200\<rparr>"

definition showTheOpeningCredits :: "state \<Rightarrow> state" where
  "showTheOpeningCredits s =
     (let s1 = Serial_println [] s;
          s2 = Serial_println ''ESP32 Network Controller v1'' s1;
          s3 = Serial_println [] s2;
          s4 = Serial_println ''Copyright (c) Rob Latour, 2023'' s3;
          s5 = Serial_println ''License: MIT'' s4;
          s6 = Serial_println ''For more info please see: https://rlatour.com/esp32networkblocker'' s5
      in Serial_println [] s6)"

definition setupTheESP32Pins :: "state \<Rightarrow> state" where
  "setupTheESP32Pins s =
     (let s1 = pinMode swtichboxNormallyOpenedConnectionPin INPUT_PULLUP s;
          s2 = pinMode swichboxNormallyClosedConnectionPin INPUT_PULLUP s1;
          s3 = pinMode controllerNormallyOpenedConnectionPin INPUT_PULLUP s2;
          s4 = pinMode controllerNormallyClosedConnectionPin INPUT_PULLUP s3;
          s5 = pinMode controllerRelayConnectionPin OUTPUT s4;
          s6 = digitalWrite controllerRelayConnectionPin LOW s5;
          s7 = pinMode onboardLEDPin OUTPUT s6;
          s8 = digitalWrite onboardLEDPin LOW s7;
          s9 = pinMode externalLEDPin OUTPUT s8
      in digitalWrite externalLEDPin LOW s9)"

text \<open>One of the four tests of \<^verbatim>\<open>setTheRoleOfThisDeviceBasedOnItsWiring\<close>: the pin
  reads 0, and reads 0 again 10 ms later. The result is the increment of the
  counter and the state after the test.\<close>

definition circuitCount :: "(nat \<Rightarrow> state \<Rightarrow> state) \<Rightarrow> env \<Rightarrow> int \<Rightarrow> state \<Rightarrow> int \<times> state" where
  "circuitCount dl e p s =
     (if digitalRead e p s = 0 then
        (let s1 = dl 10 s in
         if digitalRead e p s1 = 0 then (1, s1) else (0, s1))
      else (0, s))"

definition setTheRoleOfThisDeviceBasedOnItsWiring ::
  "(nat \<Rightarrow> state \<Rightarrow> state) \<Rightarrow> env \<Rightarrow> state \<Rightarrow> bool \<times> state" where
  "setTheRoleOfThisDeviceBasedOnItsWiring dl e s =
     (let s0 = s\<lparr>thisIsTheSwitchbox := False, thisIsTheController := False\<rparr>;
          (c1, s1) = circuitCount dl e controllerNormallyClosedConnectionPin s0;
          (c2, s2) = circuitCount dl e controllerNormallyOpenedConnectionPin s1;
          openControllerCircuts = c1 + c2;
          (c3, s3) = circuitCount dl e swichboxNormallyClosedConnectionPin s2;
          (c4, s4) = circuitCount dl e swtichboxNormallyOpenedConnectionPin s3;
          openSwitchboxCircuts = c3 + c4;
          totalOpenCircuts = openSwitchboxCircuts + openControllerCircuts;
          s5 = (if totalOpenCircuts = 1 then
                  (if openControllerCircuts = 1
                   then Serial_println ''This is the Controller'' (s4\<lparr>thisIsTheController := True\<rparr>)
                   else Serial_println ''This is the remote Switchbox'' (s4\<lparr>thisIsTheSwitchbox := True\<rparr>))
                else
                  Serial_println ''Wiring problem detected for the Emergency Stop button''
                    (s4\<lparr>FlashRateOfTheLED := FlashRateOfTheLEDWhenThereIsAWiringProblem\<rparr>));
          (totalOpenCircuts', s6) =
            (if thisIsTheSwitchbox s5 \<and> \<not> useASwitchbox e then
               (0,
                Serial_println
                  ''the variable useASwitch has been set to false when it should be set to true''
                  (Serial_println
                     ''Either it has been configured using the Switchbox pins rather than the Controller pins, or ''
                     (Serial_println ''Wiring problem detected for the Emergency Stop button''
                        (s5\<lparr>FlashRateOfTheLED := FlashRateOfTheLEDWhenThereIsAWiringProblem\<rparr>))))
             else (totalOpenCircuts, s5))
      in (totalOpenCircuts' = 1, s6))"

text \<open>The calls that only configure the WiFi driver (mode, long range, rate,
  power saving) change nothing the sketch reads; of them the model keeps the
  address of the station interface and the lines printed.\<close>

definition setMACAddresses :: "env \<Rightarrow> state \<Rightarrow> state" where
  "setMACAddresses e s =
     (let s1 = Serial_println [] s;
          s2 = Serial_print ''ESP32's board original MAC Address:  '' s1;
          s3 = Serial_println (macText e (macAddress s2)) s2;
          s4 = (if thisIsTheController s3 then s3\<lparr>macAddress := controllerMACAddress\<rparr>
                else s3\<lparr>macAddress := remoteSwitchMACAddress\<rparr>);
          s5 = Serial_print ''ESP32's board revised MAC Address:   '' s4;
          s6 = Serial_println (macText e (macAddress s5)) s5
      in Serial_println [] s6)"

definition initializeWiFi :: "env \<Rightarrow> state \<Rightarrow> state" where
  "initializeWiFi e s =
     (let s1 = (if useLongRange e then Serial_println ''Using Long Range'' s
                else Serial_println ''Not using Long Range'' s)
      in setMACAddresses e s1)"

definition initializeESPNOW :: "env \<Rightarrow> state \<Rightarrow> bool \<times> state" where
  "initializeESPNOW e s =
     (let s1 = initializeWiFi e s;
          (returnValue, s6) =
            (if espNowInitOK e then
               (let s2 = Serial_println ''ESP-NOW initialize'' s1;
                    s3 = s2\<lparr>sendCb := True\<rparr>;
                    s4 = (if thisIsTheController s3 then s3\<lparr>peerAddr := remoteSwitchMACAddress\<rparr>
                          else s3\<lparr>peerAddr := controllerMACAddress\<rparr>)
                in if addPeerOK e then
                     (True, (Serial_println ''Peer added'' s4)\<lparr>recvCb := True\<rparr>)
                   else (False, Serial_println ''Failed to add peer'' s4))
             else
               (False,
                Serial_println ''Failed to initialize ESP-NOW''
                  (s1\<lparr>FlashRateOfTheLED := FlashRateOfTheLEDWhenTheESPNOWFailedToInitialize\<rparr>)))
      in (returnValue, Serial_println [] s6))"

subsection \<open>The LED\<close>

text \<open>\<^verbatim>\<open>nextFlashCycle\<close> is a \<^verbatim>\<open>long\<close>; in \<^verbatim>\<open>millis() > nextFlashCycle\<close> it is converted
  to \<^verbatim>\<open>unsigned long\<close>, so the comparison is the one of 32-bit words. \<open>LEDsWrite\<close>
  is the pair of guarded writes that appears four times in the function.\<close>

definition LEDsWrite :: "env \<Rightarrow> int \<Rightarrow> state \<Rightarrow> state" where
  "LEDsWrite e v s =
     (let s1 = (if useOnboardLED e then digitalWrite onboardLEDPin v s else s)
      in if useExternalLED e then digitalWrite externalLEDPin v s1 else s1)"

definition LEDUpdateAsRequried :: "env \<Rightarrow> state \<Rightarrow> state" where
  "LEDUpdateAsRequried e s =
     (if FlashRateOfTheLED s > 0 then
        (if millis s > nextFlashCycle s then
           (let s1 = s\<lparr>nextFlashCycle := millis s + word_of_int (FlashRateOfTheLED s)\<rparr>;
                s2 = (if LEDIsOn s1 then LEDsWrite e LOW s1 else LEDsWrite e HIGH s1)
            in s2\<lparr>LEDIsOn := \<not> LEDIsOn s2\<rparr>)
         else s)
      else if NetworkStatus s = blocked then
        (if \<not> LEDIsOn s then LEDsWrite e HIGH (s\<lparr>LEDIsOn := True\<rparr>) else s)
      else
        (if LEDIsOn s then LEDsWrite e LOW (s\<lparr>LEDIsOn := False\<rparr>) else s))"

subsection \<open>The program: power-on state, setup and loop\<close>

text \<open>The globals as their initialisers leave them, \<open>t0\<close> milliseconds after the
  clock started; no pin has been written yet.\<close>

definition powerOn :: "env \<Rightarrow> nat \<Rightarrow> state" where
  "powerOn e t0 =
     \<lparr>FlashRateOfTheLED = 0,
      nextTouchBaseTimeTarget = word_of_nat t0 + touchBaseTimePeriodWhenAllIsGood,
      thisIsTheController = False,
      thisIsTheSwitchbox = False,
      ControllerSwitchStatus = unknown,
      SwitchBoxSwitchStatus = unknown,
      NetworkStatus = unblocked,
      packedSentSuccesfully = False,
      peerAddr = [0, 0, 0, 0, 0, 0],
      lastSwitchBoxSwitchStatus = unknown,
      lastControllerSwitchStatus = unknown,
      LEDIsOn = False,
      nextFlashCycle = 0,
      now = t0,
      gpioOut = (\<lambda>p. LOW),
      gpioMode = (\<lambda>p. None),
      serial = [],
      sent = [],
      sendCb = False,
      recvCb = False,
      macAddress = factoryMAC e,
      serialBaud = None\<rparr>"

text \<open>
  \<^verbatim>\<open>while (true) LEDUpdateAsRequried();\<close> never returns: \<^verbatim>\<open>setup()\<close>, here \<open>setup_sketch\<close>, either returns
  (\<open>Running\<close>) or enters that loop (\<open>FlashForever\<close>, with the state at its entry).
  The states of the loop are then given by \<open>flashForever\<close>, for the times
  that pass between one call of \<^verbatim>\<open>LEDUpdateAsRequried\<close> and the next.
\<close>

datatype boot = Running state | FlashForever state

definition setup_sketch :: "env \<Rightarrow> state \<Rightarrow> boot" where
  "setup_sketch e s =
     (let s1 = setupSerial s;
          s2 = showTheOpeningCredits s1;
          s3 = setupTheESP32Pins s2;
          (wiringOK, s4) = setTheRoleOfThisDeviceBasedOnItsWiring (delay e) e s3
      in if wiringOK then
           (if thisIsTheController s4 then
              (let (halted, s6) =
                     (if useASwitchbox e then
                        (let (espNowOK, s5) = initializeESPNOW e s4 in
                         if \<not> espNowOK then (True, s5)
                         else (False, requestTheSwitchboxStatus (delay e) e s5))
                      else (False, s4))
               in if halted then FlashForever s6
                  else
                    (let s7 = checkEmergencyStopButton (delay e) e s6;
                         s8 = actionANetworkChangeAsNeeded (delay e) e s7
                     in if useASwitchbox e
                        then Running (provideTheSwitchboxTheNetworkStatus (delay e) e s8)
                        else Running s8))
            else
              (let (espNowOK, s5) = initializeESPNOW e s4 in
               if \<not> espNowOK then FlashForever s5
               else
                 (let s6 = checkEmergencyStopButton (delay e) e s5
                  in Running (requestANetworkChangeAsNeeded (delay e) e s6))))
         else FlashForever s4)"

fun flashForever :: "env \<Rightarrow> nat list \<Rightarrow> state \<Rightarrow> state" where
  "flashForever e [] s = s"
| "flashForever e (d # ds) s = flashForever e ds (LEDUpdateAsRequried e (delay e d s))"



subsection \<open>An environment and a state to evaluate the functions on\<close>

text \<open>
  \<open>controllerBench\<close> is a board wired as the Controller with the button released
  (the normally closed contact on pin 19 reads 0, every other input is pulled up),
  a radio that accepts every packet and delivers nothing. \<open>controllerBlocked\<close> is
  a Controller 100 ms after the start of the clock whose own button is engaged,
  whose relay is energised and who believes the button of the Switchbox released.
\<close>

definition controllerBench :: env where
  "controllerBench =
     \<lparr>useASwitchbox = True, useOnboardLED = False, useExternalLED = True, useLongRange = False,
      pinLevel = (\<lambda>t p. if p = 19 then 0 else 1),
      sendResult = (\<lambda>k. True),
      radio = (\<lambda>t. []),
      espNowInitOK = True, addPeerOK = True,
      factoryMAC = [0x24, 0x6F, 0x28, 0x01, 0x02, 0x03],
      macText = (\<lambda>m. [])\<rparr>"

definition controllerBlocked :: state where
  "controllerBlocked =
     (powerOn controllerBench 0)
       \<lparr>thisIsTheController := True,
        ControllerSwitchStatus := blocked,
        SwitchBoxSwitchStatus := unblocked,
        NetworkStatus := blocked,
        lastControllerSwitchStatus := blocked,
        now := 100,
        gpioOut := (\<lambda>p. if p = 23 then 1 else 0),
        sendCb := True,
        recvCb := True\<rparr>"

definition glitchBench :: env where
  "glitchBench =
     controllerBench\<lparr>pinLevel := (\<lambda>t p. if p = 19 then (if 100 \<le> t \<and> t < 105 then 1 else 0) else 1)\<rparr>"

definition pressedBench :: env where
  "pressedBench = controllerBench\<lparr>pinLevel := (\<lambda>t p. if p = 18 then 0 else 1)\<rparr>"

definition unwiredBench :: env where
  "unwiredBench = controllerBench\<lparr>pinLevel := (\<lambda>t p. 1)\<rparr>"

definition switchboxUnsupportedBench :: env where
  "switchboxUnsupportedBench =
     controllerBench\<lparr>useASwitchbox := False, pinLevel := (\<lambda>t p. if p = 22 then 0 else 1)\<rparr>"

subsection \<open>The words of the claims\<close>

text \<open>
  The definitions of this subsection do not come from the sketch: they say what the
  claims talk about, and the theorems compare them with the functions above.

  The switch status of the node itself, and the pins of its own button.
\<close>

definition ownSwitchStatus :: "state \<Rightarrow> device_Status" where
  "ownSwitchStatus s =
     (if thisIsTheController s then ControllerSwitchStatus s else SwitchBoxSwitchStatus s)"

definition ownClosedPin :: "state \<Rightarrow> int" where
  "ownClosedPin s = (if thisIsTheController s then controllerNormallyClosedConnectionPin
                     else swichboxNormallyClosedConnectionPin)"

definition ownOpenedPin :: "state \<Rightarrow> int" where
  "ownOpenedPin s = (if thisIsTheController s then controllerNormallyOpenedConnectionPin
                     else swtichboxNormallyOpenedConnectionPin)"

text \<open>Both debounced tests pass, for a check that starts at time \<open>t\<close>: the normally
  closed contact \<open>nc\<close> reads open at \<open>t\<close> and 10 ms later, and then the normally opened
  contact \<open>no\<close> reads closed, at once and 10 ms later.\<close>

definition buttonEngaged :: "env \<Rightarrow> int \<Rightarrow> int \<Rightarrow> nat \<Rightarrow> bool" where
  "buttonEngaged e nc no t =
     (pinLevel e t nc \<noteq> 0 \<and> pinLevel e (t + 10) nc \<noteq> 0
      \<and> pinLevel e (t + 10) no = 0 \<and> pinLevel e (t + 20) no = 0)"

text \<open>A contact input is confirmed closed by a test that starts at time \<open>t\<close> when it
  reads 0 at \<open>t\<close> and 10 ms later; the test ends at \<open>afterTest\<close>. \<open>closedContacts\<close> are the
  four results of role negotiation that starts at \<open>t1\<close>, in the order of the sketch:
  the two contacts of the Controller, then the two of the Switchbox.\<close>

definition confirmedClosed :: "env \<Rightarrow> int \<Rightarrow> nat \<Rightarrow> bool" where
  "confirmedClosed e p t = (pinLevel e t p = 0 \<and> pinLevel e (t + 10) p = 0)"

definition afterTest :: "env \<Rightarrow> int \<Rightarrow> nat \<Rightarrow> nat" where
  "afterTest e p t = (if pinLevel e t p = 0 then t + 10 else t)"

definition closedContacts :: "env \<Rightarrow> nat \<Rightarrow> bool list" where
  "closedContacts e t1 =
     (let t2 = afterTest e controllerNormallyClosedConnectionPin t1;
          t3 = afterTest e controllerNormallyOpenedConnectionPin t2;
          t4 = afterTest e swichboxNormallyClosedConnectionPin t3
      in [confirmedClosed e controllerNormallyClosedConnectionPin t1,
          confirmedClosed e controllerNormallyOpenedConnectionPin t2,
          confirmedClosed e swichboxNormallyClosedConnectionPin t3,
          confirmedClosed e swtichboxNormallyOpenedConnectionPin t4])"

definition closedCount :: "env \<Rightarrow> nat \<Rightarrow> nat" where
  "closedCount e t = length (filter id (closedContacts e t))"

definition controllerContactClosed :: "env \<Rightarrow> nat \<Rightarrow> bool" where
  "controllerContactClosed e t = (closedContacts e t ! 0 \<or> closedContacts e t ! 1)"

definition switchboxContactClosed :: "env \<Rightarrow> nat \<Rightarrow> bool" where
  "switchboxContactClosed e t = (closedContacts e t ! 2 \<or> closedContacts e t ! 3)"

text \<open>The invariant of the Controller: \<^verbatim>\<open>NetworkStatus\<close> is blocked exactly when the
  relay pin is driven HIGH.\<close>

definition relayAgrees :: "state \<Rightarrow> bool" where
  "relayAgrees s = ((NetworkStatus s = blocked) = (gpioOut s controllerRelayConnectionPin = HIGH))"

definition controllerInvariant :: "state \<Rightarrow> bool" where
  "controllerInvariant s = (thisIsTheController s \<and> relayAgrees s)"

text \<open>The two ways \<^verbatim>\<open>setup()\<close> ends: the state it leaves, and whether it is stuck in
  the loop that only flashes the LED.\<close>

fun bootState :: "boot \<Rightarrow> state" where
  "bootState (Running s) = s"
| "bootState (FlashForever s) = s"

fun halted :: "boot \<Rightarrow> bool" where
  "halted (Running s) = False"
| "halted (FlashForever s) = True"

text \<open>The moment of the check in \<^verbatim>\<open>BlockNetwork\<close>: the state in which a request to
  unblock that passed the two guards at the top reaches the tests of
  \<^verbatim>\<open>ControllerSwitchStatus\<close> and \<^verbatim>\<open>SwitchBoxSwitchStatus\<close>, in a build with a Switchbox.\<close>

definition stateAtTheUnblockCheck ::
  "(nat \<Rightarrow> state \<Rightarrow> state) \<Rightarrow> env \<Rightarrow> bool \<Rightarrow> state \<Rightarrow> state" where
  "stateAtTheUnblockCheck dl e RequestCameFromController s =
     (let s1 = Serial_print ''incoming unblock request'' s;
          s2 = s1\<lparr>SwitchBoxSwitchStatus := unknown\<rparr>
      in if RequestCameFromController then requestTheSwitchboxStatus dl e s2 else s2)"

text \<open>After time \<open>a\<close> and up to time \<open>b\<close> the radio delivers no request of the Switchbox
  to unblock the network.\<close>

definition noUnblockRequestsDuring :: "env \<Rightarrow> nat \<Rightarrow> nat \<Rightarrow> bool" where
  "noUnblockRequestsDuring e a b =
     (\<forall>t \<in> {a<..b}. \<forall>ev \<in> set (radio e t).
        case ev of DataSent ok \<Rightarrow> True
        | DataRecv m \<Rightarrow> transmission m \<noteq> requestControllerUnblockNetwork)"

text \<open>A Controller whose network is blocked, with the levels \<open>g\<close> on its output pins
  and the status \<open>c\<close> of its own switch.\<close>

definition blockedController :: "(int \<Rightarrow> int) \<Rightarrow> device_Status \<Rightarrow> state \<Rightarrow> bool" where
  "blockedController g c s =
     (thisIsTheController s \<and> NetworkStatus s = blocked \<and> gpioOut s = g
      \<and> ControllerSwitchStatus s = c)"

text \<open>\<open>switchboxEngagedBench\<close> is \<open>controllerBench\<close> with a radio that reports the packet of
  the Controller as sent at 105 ms and delivers the reply of the Switchbox, blocked,
  at 120 ms. \<open>controllerReleased\<close> is \<open>controllerBlocked\<close> with the button of the
  Controller released.\<close>

definition switchboxEngagedBench :: env where
  "switchboxEngagedBench =
     controllerBench\<lparr>radio := (\<lambda>t. if t = 105 then [DataSent True]
                                  else if t = 120
                                  then [DataRecv \<lparr>transmission = switchboxStatusReply, status = blocked\<rparr>]
                                  else [])\<rparr>"

definition controllerReleased :: state where
  "controllerReleased = controllerBlocked\<lparr>ControllerSwitchStatus := unblocked\<rparr>"

text \<open>\<open>raceBench\<close> is \<open>switchboxEngagedBench\<close> with one more packet: at 115 ms, before its
  reply, the Switchbox asks the Controller to unblock the network.\<close>

definition raceBench :: env where
  "raceBench =
     controllerBench\<lparr>radio := (\<lambda>t. if t = 105 then [DataSent True]
                                  else if t = 115
                                  then [DataRecv \<lparr>transmission = requestControllerUnblockNetwork,
                                                  status = unknown\<rparr>]
                                  else if t = 120
                                  then [DataRecv \<lparr>transmission = switchboxStatusReply, status = blocked\<rparr>]
                                  else [])\<rparr>"

text \<open>\<open>controllerAt t\<close> is \<open>controllerBlocked\<close> with the clock at \<open>t\<close> ms: the clock of a
  Controller that has been running for 49.7 days is about to wrap around.\<close>

definition controllerAt :: "nat \<Rightarrow> state" where
  "controllerAt t = controllerBlocked\<lparr>now := t\<rparr>"

section \<open>Properties\<close>

subsection \<open>The callbacks\<close>

lemma OnDataSent_True:
  "OnDataSent e True s =
     s\<lparr>packedSentSuccesfully := True, FlashRateOfTheLED := 0,
       nextTouchBaseTimeTarget := millis s + 30000 + (if thisIsTheController s then 0 else 1500)\<rparr>"
  by (simp add: OnDataSent_def Let_def millis_def touchBaseTimePeriodWhenAllIsGood_def
      touchbaseOffsetsForSwitchbox_def)

lemma OnDataSent_False:
  "OnDataSent e False s =
     s\<lparr>packedSentSuccesfully := False, FlashRateOfTheLED := 333,
       nextTouchBaseTimeTarget := millis s + 5000 + (if thisIsTheController s then 0 else 1500),
       serial := serial s @ [''OnDataSent delivery failed'' @ [CHR 0x0D, CHR 0x0A]]\<rparr>"
  by (simp add: OnDataSent_def Let_def millis_def touchBaseTimePeriodWhenThereIsAKnownProblem_def
      touchbaseOffsetsForSwitchbox_def Serial_println_def
      FlashRateOfTheLEDWhenThereIsACommunicationsProblemBetweenTheControllerAndSwitch_def)

text \<open>As long as neither sum wraps around, the 32-bit comparison of the clock with a
  deadline is the comparison of the elapsed time with the interval.\<close>

lemma later_than_deadline:
  fixes t d k :: nat
  assumes "t + d < 2 ^ 32" and "t + k < 2 ^ 32"
  shows "((word_of_nat t :: 32 word) + word_of_nat k < word_of_nat (t + d)) = (k < d)"
proof -
  have a: "unat (word_of_nat (t + k) :: 32 word) = t + k"
    using assms(2) by (simp only: unat_of_nat) simp
  have b: "unat (word_of_nat (t + d) :: 32 word) = t + d"
    using assms(1) by (simp only: unat_of_nat) simp
  have "((word_of_nat (t + k) :: 32 word) < word_of_nat (t + d)) = (t + k < t + d)"
    unfolding word_less_nat_alt a b ..
  then show ?thesis by simp
qed

lemma provideTheSwitchboxTheNetworkStatus_cb_frame:
  "thisIsTheController (provideTheSwitchboxTheNetworkStatus delay_cb e s) = thisIsTheController s"
  "thisIsTheSwitchbox (provideTheSwitchboxTheNetworkStatus delay_cb e s) = thisIsTheSwitchbox s"
  "ControllerSwitchStatus (provideTheSwitchboxTheNetworkStatus delay_cb e s) = ControllerSwitchStatus s"
  "SwitchBoxSwitchStatus (provideTheSwitchboxTheNetworkStatus delay_cb e s) = SwitchBoxSwitchStatus s"
  "NetworkStatus (provideTheSwitchboxTheNetworkStatus delay_cb e s) = NetworkStatus s"
  "gpioOut (provideTheSwitchboxTheNetworkStatus delay_cb e s) = gpioOut s"
  "nextTouchBaseTimeTarget (provideTheSwitchboxTheNetworkStatus delay_cb e s) = nextTouchBaseTimeTarget s"
  by (simp_all add: provideTheSwitchboxTheNetworkStatus_def Let_def Serial_println_def
      esp_now_send_def delay_cb_def split: prod.splits)

subsection \<open>Waiting on the main task\<close>

lemma now_tick: "now (tick e s) = now s + 1"
  by (simp add: tick_def Let_def)

lemma now_delay: "now (delay e n s) = now s + n"
  by (induction n arbitrary: s) (simp_all add: now_tick)

lemma checkEmergencyStopButton_cb_role:
  "thisIsTheController (checkEmergencyStopButton delay_cb e s) = thisIsTheController s"
  "thisIsTheSwitchbox (checkEmergencyStopButton delay_cb e s) = thisIsTheSwitchbox s"
  by (simp_all add: checkEmergencyStopButton_def Let_def delay_cb_def split: prod.splits)

lemma provideTheControllerTheSwitchboxStatus_cb_role:
  "thisIsTheController (provideTheControllerTheSwitchboxStatus delay_cb e s) = thisIsTheController s"
  "thisIsTheSwitchbox (provideTheControllerTheSwitchboxStatus delay_cb e s) = thisIsTheSwitchbox s"
  by (simp_all add: provideTheControllerTheSwitchboxStatus_def Let_def Serial_println_def
      Serial_print_def esp_now_send_def delay_cb_def checkEmergencyStopButton_cb_role
      split: prod.splits)

lemma BlockNetwork_from_peer_role:
  "thisIsTheController (BlockNetwork dl e b False s) = thisIsTheController s"
  "thisIsTheSwitchbox (BlockNetwork dl e b False s) = thisIsTheSwitchbox s"
  by (simp_all add: BlockNetwork_def Let_def Serial_println_def Serial_print_def digitalWrite_def
      split: prod.splits)

lemma OnDataSent_role:
  "thisIsTheController (OnDataSent e ok s) = thisIsTheController s"
  "thisIsTheSwitchbox (OnDataSent e ok s) = thisIsTheSwitchbox s"
  by (cases ok; simp add: OnDataSent_True OnDataSent_False)+

lemma OnDataRecv_role:
  "thisIsTheController (OnDataRecv e m s) = thisIsTheController s"
  "thisIsTheSwitchbox (OnDataRecv e m s) = thisIsTheSwitchbox s"
  by (simp_all add: OnDataRecv_def Let_def Serial_println_def Serial_print_def
      provideTheSwitchboxTheNetworkStatus_cb_frame provideTheControllerTheSwitchboxStatus_cb_role
      BlockNetwork_from_peer_role)

lemma deliver_role:
  "thisIsTheController (deliver e ev s) = thisIsTheController s"
  "thisIsTheSwitchbox (deliver e ev s) = thisIsTheSwitchbox s"
  by (simp_all add: deliver_def OnDataSent_role OnDataRecv_role split: radio_event.splits)

lemma foldl_deliver_role:
  "thisIsTheController (foldl (\<lambda>s' ev. deliver e ev (s'\<lparr>now := t\<rparr>)) s evs) = thisIsTheController s"
  "thisIsTheSwitchbox (foldl (\<lambda>s' ev. deliver e ev (s'\<lparr>now := t\<rparr>)) s evs) = thisIsTheSwitchbox s"
  by (induction evs arbitrary: s) (simp_all add: deliver_role)

lemma tick_role:
  "thisIsTheController (tick e s) = thisIsTheController s"
  "thisIsTheSwitchbox (tick e s) = thisIsTheSwitchbox s"
  by (simp_all add: tick_def Let_def foldl_deliver_role)

lemma delay_role:
  "thisIsTheController (delay e n s) = thisIsTheController s"
  "thisIsTheSwitchbox (delay e n s) = thisIsTheSwitchbox s"
  by (induction n arbitrary: s) (simp_all add: tick_role)

lemma deliver_unregistered: "\<not> sendCb s \<Longrightarrow> \<not> recvCb s \<Longrightarrow> deliver e ev s = s"
  by (simp add: deliver_def split: radio_event.splits)

lemma foldl_deliver_unregistered:
  "\<not> sendCb s \<Longrightarrow> \<not> recvCb s \<Longrightarrow>
   foldl (\<lambda>s' ev. deliver e ev (s'\<lparr>now := t\<rparr>)) s evs = (if evs = [] then s else s\<lparr>now := t\<rparr>)"
  by (induction evs arbitrary: s) (simp_all add: deliver_unregistered)

lemma tick_unregistered: "\<not> sendCb s \<Longrightarrow> \<not> recvCb s \<Longrightarrow> tick e s = s\<lparr>now := now s + 1\<rparr>"
  by (simp add: tick_def Let_def foldl_deliver_unregistered)

lemma delay_unregistered: "\<not> sendCb s \<Longrightarrow> \<not> recvCb s \<Longrightarrow> delay e n s = s\<lparr>now := now s + n\<rparr>"
  by (induction n arbitrary: s) (simp_all add: tick_unregistered)


subsection \<open>The button and the wiring\<close>

lemma checkEmergencyStopButton_result:
  assumes "\<And>n s. now (dl n s) = now s + n"
    and "\<And>n s. thisIsTheController (dl n s) = thisIsTheController s"
  shows "ownSwitchStatus (checkEmergencyStopButton dl e s) =
           (if buttonEngaged e (ownClosedPin s) (ownOpenedPin s) (now s) then blocked else unblocked)"
  by (cases "thisIsTheController s")
    (simp_all add: checkEmergencyStopButton_def Let_def digitalRead_def assms ownSwitchStatus_def
      buttonEngaged_def ownClosedPin_def ownOpenedPin_def add.commute [of 20])

lemma circuitCount_eq:
  assumes "\<And>n s. now (dl n s) = now s + n"
  shows "fst (circuitCount dl e p s) = (if confirmedClosed e p (now s) then 1 else 0)"
    and "now (snd (circuitCount dl e p s)) = afterTest e p (now s)"
  by (simp_all add: circuitCount_def Let_def digitalRead_def confirmedClosed_def afterTest_def assms)

lemma circuitCount_role:
  assumes "\<And>n s. thisIsTheController (dl n s) = thisIsTheController s"
    and "\<And>n s. thisIsTheSwitchbox (dl n s) = thisIsTheSwitchbox s"
  shows "thisIsTheController (snd (circuitCount dl e p s)) = thisIsTheController s"
    and "thisIsTheSwitchbox (snd (circuitCount dl e p s)) = thisIsTheSwitchbox s"
  by (simp_all add: circuitCount_def Let_def assms)

lemma setTheRole_result:
  fixes dl e s
  assumes n: "\<And>n s. now (dl n s) = now s + n"
    and c: "\<And>n s. thisIsTheController (dl n s) = thisIsTheController s"
    and b: "\<And>n s. thisIsTheSwitchbox (dl n s) = thisIsTheSwitchbox s"
  defines "cs \<equiv> closedContacts e (now s)"
  defines "r \<equiv> setTheRoleOfThisDeviceBasedOnItsWiring dl e s"
  shows "fst r = (length (filter id cs) = 1 \<and> (cs ! 0 \<or> cs ! 1 \<or> useASwitchbox e))"
    and "fst r \<longrightarrow> thisIsTheController (snd r) = (cs ! 0 \<or> cs ! 1)
                  \<and> thisIsTheSwitchbox (snd r) = (cs ! 2 \<or> cs ! 3)"
    and "\<not> fst r \<longrightarrow> FlashRateOfTheLED (snd r) = 1000 \<and> \<not> thisIsTheController (snd r)"
    and "length (filter id cs) \<noteq> 1 \<longrightarrow> \<not> thisIsTheSwitchbox (snd r)"
  unfolding cs_def r_def closedContacts_def setTheRoleOfThisDeviceBasedOnItsWiring_def
  by (simp_all add: Let_def split_beta circuitCount_eq [OF n] circuitCount_role [OF c b]
      Serial_println_def FlashRateOfTheLEDWhenThereIsAWiringProblem_def)

subsection \<open>Writing to the serial port changes the log only\<close>

lemma Serial_println_fields:
  "FlashRateOfTheLED (Serial_println t s) = FlashRateOfTheLED s"
  "nextTouchBaseTimeTarget (Serial_println t s) = nextTouchBaseTimeTarget s"
  "thisIsTheController (Serial_println t s) = thisIsTheController s"
  "thisIsTheSwitchbox (Serial_println t s) = thisIsTheSwitchbox s"
  "ControllerSwitchStatus (Serial_println t s) = ControllerSwitchStatus s"
  "SwitchBoxSwitchStatus (Serial_println t s) = SwitchBoxSwitchStatus s"
  "NetworkStatus (Serial_println t s) = NetworkStatus s"
  "packedSentSuccesfully (Serial_println t s) = packedSentSuccesfully s"
  "peerAddr (Serial_println t s) = peerAddr s"
  "lastSwitchBoxSwitchStatus (Serial_println t s) = lastSwitchBoxSwitchStatus s"
  "lastControllerSwitchStatus (Serial_println t s) = lastControllerSwitchStatus s"
  "LEDIsOn (Serial_println t s) = LEDIsOn s"
  "nextFlashCycle (Serial_println t s) = nextFlashCycle s"
  "now (Serial_println t s) = now s"
  "gpioOut (Serial_println t s) = gpioOut s"
  "gpioMode (Serial_println t s) = gpioMode s"
  "sent (Serial_println t s) = sent s"
  "sendCb (Serial_println t s) = sendCb s"
  "recvCb (Serial_println t s) = recvCb s"
  "macAddress (Serial_println t s) = macAddress s"
  "serialBaud (Serial_println t s) = serialBaud s"
  by (simp_all add: Serial_println_def)

lemma Serial_print_fields:
  "FlashRateOfTheLED (Serial_print t s) = FlashRateOfTheLED s"
  "nextTouchBaseTimeTarget (Serial_print t s) = nextTouchBaseTimeTarget s"
  "thisIsTheController (Serial_print t s) = thisIsTheController s"
  "thisIsTheSwitchbox (Serial_print t s) = thisIsTheSwitchbox s"
  "ControllerSwitchStatus (Serial_print t s) = ControllerSwitchStatus s"
  "SwitchBoxSwitchStatus (Serial_print t s) = SwitchBoxSwitchStatus s"
  "NetworkStatus (Serial_print t s) = NetworkStatus s"
  "packedSentSuccesfully (Serial_print t s) = packedSentSuccesfully s"
  "peerAddr (Serial_print t s) = peerAddr s"
  "lastSwitchBoxSwitchStatus (Serial_print t s) = lastSwitchBoxSwitchStatus s"
  "lastControllerSwitchStatus (Serial_print t s) = lastControllerSwitchStatus s"
  "LEDIsOn (Serial_print t s) = LEDIsOn s"
  "nextFlashCycle (Serial_print t s) = nextFlashCycle s"
  "now (Serial_print t s) = now s"
  "gpioOut (Serial_print t s) = gpioOut s"
  "gpioMode (Serial_print t s) = gpioMode s"
  "sent (Serial_print t s) = sent s"
  "sendCb (Serial_print t s) = sendCb s"
  "recvCb (Serial_print t s) = recvCb s"
  "macAddress (Serial_print t s) = macAddress s"
  "serialBaud (Serial_print t s) = serialBaud s"
  by (simp_all add: Serial_print_def)

lemma millis_Serial:
  "millis (Serial_println t s) = millis s"
  "millis (Serial_print t s) = millis s"
  by (simp_all add: millis_def Serial_println_def Serial_print_def)

lemma digitalRead_Serial:
  "digitalRead e p (Serial_println t s) = digitalRead e p s"
  "digitalRead e p (Serial_print t s) = digitalRead e p s"
  by (simp_all add: digitalRead_def Serial_println_def Serial_print_def)

lemmas Serial_fields = Serial_println_fields Serial_print_fields millis_Serial digitalRead_Serial

subsection \<open>The invariant of the Controller\<close>

text \<open>What does not touch the relay pin, \<^verbatim>\<open>NetworkStatus\<close> or the role keeps the
  invariant.\<close>

lemma controllerInvariant_frame:
  "controllerInvariant (Serial_println t s) = controllerInvariant s"
  "controllerInvariant (Serial_print t s) = controllerInvariant s"
  "controllerInvariant (snd (esp_now_send e d m s)) = controllerInvariant s"
  "controllerInvariant (delay_cb n s) = controllerInvariant s"
  "controllerInvariant (LEDsWrite e v s) = controllerInvariant s"
  "controllerInvariant (s\<lparr>FlashRateOfTheLED := a\<rparr>) = controllerInvariant s"
  "controllerInvariant (s\<lparr>nextTouchBaseTimeTarget := b\<rparr>) = controllerInvariant s"
  "controllerInvariant (s\<lparr>ControllerSwitchStatus := c\<rparr>) = controllerInvariant s"
  "controllerInvariant (s\<lparr>SwitchBoxSwitchStatus := c\<rparr>) = controllerInvariant s"
  "controllerInvariant (s\<lparr>packedSentSuccesfully := f\<rparr>) = controllerInvariant s"
  "controllerInvariant (s\<lparr>lastControllerSwitchStatus := c\<rparr>) = controllerInvariant s"
  "controllerInvariant (s\<lparr>lastSwitchBoxSwitchStatus := c\<rparr>) = controllerInvariant s"
  "controllerInvariant (s\<lparr>LEDIsOn := f\<rparr>) = controllerInvariant s"
  "controllerInvariant (s\<lparr>nextFlashCycle := b\<rparr>) = controllerInvariant s"
  "controllerInvariant (s\<lparr>now := k\<rparr>) = controllerInvariant s"
  "controllerInvariant (s\<lparr>serial := l\<rparr>) = controllerInvariant s"
  "controllerInvariant (s\<lparr>sent := p\<rparr>) = controllerInvariant s"
  "controllerInvariant (s\<lparr>sendCb := f\<rparr>) = controllerInvariant s"
  "controllerInvariant (s\<lparr>recvCb := f\<rparr>) = controllerInvariant s"
  "controllerInvariant (s\<lparr>peerAddr := q\<rparr>) = controllerInvariant s"
  "controllerInvariant (s\<lparr>macAddress := q\<rparr>) = controllerInvariant s"
  by (simp_all add: controllerInvariant_def relayAgrees_def Serial_println_def Serial_print_def
      esp_now_send_def delay_cb_def LEDsWrite_def Let_def digitalWrite_def
      controllerRelayConnectionPin_def onboardLEDPin_def externalLEDPin_def)

lemma controllerInvariant_role: "controllerInvariant s \<Longrightarrow> thisIsTheController s"
  by (simp add: controllerInvariant_def)

lemma controllerInvariant_relay:
  "thisIsTheController s \<Longrightarrow>
   controllerInvariant ((digitalWrite controllerRelayConnectionPin HIGH s)\<lparr>NetworkStatus := blocked\<rparr>)"
  "thisIsTheController s \<Longrightarrow>
   controllerInvariant ((digitalWrite controllerRelayConnectionPin LOW s)\<lparr>NetworkStatus := unblocked\<rparr>)"
  by (simp_all add: controllerInvariant_def relayAgrees_def digitalWrite_def HIGH_def LOW_def)

lemmas inv_simps = controllerInvariant_frame controllerInvariant_role controllerInvariant_relay

text \<open>Each function of the sketch keeps the invariant if the \<^verbatim>\<open>delay\<close> of its task
  does.\<close>

lemma checkEmergencyStopButton_inv:
  assumes "\<And>n s. controllerInvariant s \<Longrightarrow> controllerInvariant (dl n s)"
    and "controllerInvariant s"
  shows "controllerInvariant (checkEmergencyStopButton dl e s)"
  using assms by (simp add: inv_simps checkEmergencyStopButton_def Let_def)

lemma provideTheSwitchboxTheNetworkStatus_inv:
  assumes "\<And>n s. controllerInvariant s \<Longrightarrow> controllerInvariant (dl n s)"
    and "controllerInvariant s"
  shows "controllerInvariant (provideTheSwitchboxTheNetworkStatus dl e s)"
  using assms by (simp add: inv_simps provideTheSwitchboxTheNetworkStatus_def Let_def split_beta)


lemma waitForTheSwitchboxReply_inv:
  assumes "\<And>n s. controllerInvariant s \<Longrightarrow> controllerInvariant (dl n s)"
    and "controllerInvariant s"
  shows "controllerInvariant (waitForTheSwitchboxReply k dl timeout s)"
  using assms(2) by (induction k arbitrary: s) (simp_all add: inv_simps assms(1))

lemma requestTheSwitchboxStatus_inv:
  assumes "\<And>n s. controllerInvariant s \<Longrightarrow> controllerInvariant (dl n s)"
    and "controllerInvariant s"
  shows "controllerInvariant (requestTheSwitchboxStatus dl e s)"
  using assms
  by (simp add: inv_simps requestTheSwitchboxStatus_def Let_def split_beta waitForTheSwitchboxReply_inv)

lemma BlockNetwork_inv:
  assumes "\<And>n s. controllerInvariant s \<Longrightarrow> controllerInvariant (dl n s)"
    and "controllerInvariant s"
  shows "controllerInvariant (BlockNetwork dl e blockNow rc s)"
  using assms
  by (simp add: inv_simps BlockNetwork_def Let_def split_beta requestTheSwitchboxStatus_inv)



lemma actionANetworkChangeAsNeeded_inv:
  assumes "\<And>n s. controllerInvariant s \<Longrightarrow> controllerInvariant (dl n s)"
    and "controllerInvariant s"
  shows "controllerInvariant (actionANetworkChangeAsNeeded dl e s)"
  using assms
  by (simp add: inv_simps actionANetworkChangeAsNeeded_def Let_def BlockNetwork_inv
      provideTheSwitchboxTheNetworkStatus_inv)



lemma OnDataSent_inv: "controllerInvariant s \<Longrightarrow> controllerInvariant (OnDataSent e ok s)"
  by (cases ok) (simp_all add: inv_simps OnDataSent_True OnDataSent_False)

lemma OnDataRecv_inv: "controllerInvariant s \<Longrightarrow> controllerInvariant (OnDataRecv e m s)"
  by (simp add: inv_simps OnDataRecv_def Let_def BlockNetwork_inv provideTheSwitchboxTheNetworkStatus_inv)

lemma deliver_inv: "controllerInvariant s \<Longrightarrow> controllerInvariant (deliver e ev s)"
  by (simp add: inv_simps deliver_def OnDataSent_inv OnDataRecv_inv split: radio_event.splits)

lemma foldl_deliver_inv:
  "controllerInvariant s \<Longrightarrow>
   controllerInvariant (foldl (\<lambda>s' ev. deliver e ev (s'\<lparr>now := t\<rparr>)) s evs)"
  by (induction evs arbitrary: s) (simp_all add: inv_simps deliver_inv)

lemma tick_inv: "controllerInvariant s \<Longrightarrow> controllerInvariant (tick e s)"
  by (simp add: inv_simps tick_def Let_def foldl_deliver_inv)

lemma delay_inv: "controllerInvariant s \<Longrightarrow> controllerInvariant (delay e n s)"
  by (induction n arbitrary: s) (simp_all add: inv_simps tick_inv)




subsection \<open>The role does not change after role negotiation\<close>

lemma checkEmergencyStopButton_ctrl:
  assumes "\<And>n s. thisIsTheController (dl n s) = thisIsTheController s"
  shows "thisIsTheController (checkEmergencyStopButton dl e s) = thisIsTheController s"
  by (simp add: Serial_fields checkEmergencyStopButton_def Let_def assms)

lemma provideTheSwitchboxTheNetworkStatus_ctrl:
  assumes "\<And>n s. thisIsTheController (dl n s) = thisIsTheController s"
  shows "thisIsTheController (provideTheSwitchboxTheNetworkStatus dl e s) = thisIsTheController s"
  by (simp add: Serial_fields provideTheSwitchboxTheNetworkStatus_def Let_def split_beta assms esp_now_send_def)

lemma waitForTheSwitchboxReply_ctrl:
  assumes "\<And>n s. thisIsTheController (dl n s) = thisIsTheController s"
  shows "thisIsTheController (waitForTheSwitchboxReply k dl timeout s) = thisIsTheController s"
  by (induction k arbitrary: s) (simp_all add: Serial_fields assms)

lemma requestTheSwitchboxStatus_ctrl:
  assumes "\<And>n s. thisIsTheController (dl n s) = thisIsTheController s"
  shows "thisIsTheController (requestTheSwitchboxStatus dl e s) = thisIsTheController s"
  by (simp add: Serial_fields requestTheSwitchboxStatus_def Let_def split_beta assms
      waitForTheSwitchboxReply_ctrl [OF assms] Serial_println_def esp_now_send_def)

lemma BlockNetwork_ctrl:
  assumes "\<And>n s. thisIsTheController (dl n s) = thisIsTheController s"
  shows "thisIsTheController (BlockNetwork dl e b rc s) = thisIsTheController s"
  by (simp add: Serial_fields BlockNetwork_def Let_def split_beta requestTheSwitchboxStatus_ctrl [OF assms] digitalWrite_def)

lemma actionANetworkChangeAsNeeded_ctrl:
  assumes "\<And>n s. thisIsTheController (dl n s) = thisIsTheController s"
  shows "thisIsTheController (actionANetworkChangeAsNeeded dl e s) = thisIsTheController s"
  by (simp add: Serial_fields actionANetworkChangeAsNeeded_def Let_def BlockNetwork_ctrl [OF assms]
      provideTheSwitchboxTheNetworkStatus_ctrl [OF assms])

lemma requestToBlockOrUnblockNetwork_ctrl:
  assumes "\<And>n s. thisIsTheController (dl n s) = thisIsTheController s"
  shows "thisIsTheController (requestToBlockOrUnblockNetwork dl e b s) = thisIsTheController s"
  by (simp add: Serial_fields requestToBlockOrUnblockNetwork_def Let_def split_beta assms esp_now_send_def)

lemma requestANetworkChangeAsNeeded_ctrl:
  assumes "\<And>n s. thisIsTheController (dl n s) = thisIsTheController s"
  shows "thisIsTheController (requestANetworkChangeAsNeeded dl e s) = thisIsTheController s"
  by (simp add: Serial_fields requestANetworkChangeAsNeeded_def Let_def
      requestToBlockOrUnblockNetwork_ctrl [OF assms])

lemma initializeESPNOW_ctrl:
  "thisIsTheController (snd (initializeESPNOW e s)) = thisIsTheController s"
  by (simp add: inv_simps Serial_fields initializeESPNOW_def initializeWiFi_def setMACAddresses_def Let_def split_beta)

lemma initializeESPNOW_inv:
  "controllerInvariant s \<Longrightarrow> controllerInvariant (snd (initializeESPNOW e s))"
  by (simp add: inv_simps Serial_fields initializeESPNOW_def initializeWiFi_def setMACAddresses_def Let_def split_beta)


subsection \<open>Start-up\<close>

lemma start_of_setup:
  "setupTheESP32Pins (showTheOpeningCredits (setupSerial (powerOn e t0))) =
     (powerOn e t0)
       \<lparr>serialBaud := Some 115200,
        serial := serial (showTheOpeningCredits (powerOn e t0)),
        gpioMode := gpioMode (setupTheESP32Pins (powerOn e t0)),
        gpioOut := (\<lambda>p. LOW)\<rparr>"
  by (simp add: setupTheESP32Pins_def showTheOpeningCredits_def setupSerial_def powerOn_def
      Let_def Serial_println_def pinMode_def digitalWrite_def fun_eq_iff)

lemma circuitCount_unregistered:
  "\<not> sendCb s \<Longrightarrow> \<not> recvCb s \<Longrightarrow>
   snd (circuitCount (delay e) e p s) = s\<lparr>now := afterTest e p (now s)\<rparr>"
  by (simp add: circuitCount_def Let_def delay_unregistered afterTest_def digitalRead_def)


text \<open>Before the callbacks are registered, role negotiation changes the roles, the
  flash rate, the serial log and the clock, and nothing else.\<close>

lemma setTheRole_unregistered:
  assumes "\<not> sendCb s" and "\<not> recvCb s"
  shows "gpioOut (snd (setTheRoleOfThisDeviceBasedOnItsWiring (delay e) e s)) = gpioOut s"
    and "NetworkStatus (snd (setTheRoleOfThisDeviceBasedOnItsWiring (delay e) e s)) = NetworkStatus s"
    and "sent (snd (setTheRoleOfThisDeviceBasedOnItsWiring (delay e) e s)) = sent s"
    and "sendCb (snd (setTheRoleOfThisDeviceBasedOnItsWiring (delay e) e s)) = sendCb s"
    and "recvCb (snd (setTheRoleOfThisDeviceBasedOnItsWiring (delay e) e s)) = recvCb s"
  using assms
  by (simp_all add: setTheRoleOfThisDeviceBasedOnItsWiring_def Let_def split_beta
      circuitCount_unregistered Serial_fields)

lemmas on_main_task_inv =
  checkEmergencyStopButton_inv [OF delay_inv]
  provideTheSwitchboxTheNetworkStatus_inv [OF delay_inv]
  requestTheSwitchboxStatus_inv [OF delay_inv]
  actionANetworkChangeAsNeeded_inv [OF delay_inv]
  BlockNetwork_inv [OF delay_inv]

lemmas on_main_task_ctrl =
  checkEmergencyStopButton_ctrl [OF delay_role(1)]
  provideTheSwitchboxTheNetworkStatus_ctrl [OF delay_role(1)]
  requestTheSwitchboxStatus_ctrl [OF delay_role(1)]
  actionANetworkChangeAsNeeded_ctrl [OF delay_role(1)]
  requestANetworkChangeAsNeeded_ctrl [OF delay_role(1)]
  BlockNetwork_ctrl [OF delay_role(1)]

text \<open>The state \<^verbatim>\<open>setup()\<close> ends in, step by step.\<close>

lemma bootState_setup_sketch:
  "bootState (setup_sketch e s) =
     (let r = setTheRoleOfThisDeviceBasedOnItsWiring (delay e) e
                (setupTheESP32Pins (showTheOpeningCredits (setupSerial s)));
          i = initializeESPNOW e (snd r)
      in if \<not> fst r then snd r
         else if thisIsTheController (snd r) then
           (if useASwitchbox e then
              (if \<not> fst i then snd i
               else provideTheSwitchboxTheNetworkStatus (delay e) e
                      (actionANetworkChangeAsNeeded (delay e) e
                         (checkEmergencyStopButton (delay e) e
                            (requestTheSwitchboxStatus (delay e) e (snd i)))))
            else actionANetworkChangeAsNeeded (delay e) e
                   (checkEmergencyStopButton (delay e) e (snd r)))
         else
           (if \<not> fst i then snd i
            else requestANetworkChangeAsNeeded (delay e) e
                   (checkEmergencyStopButton (delay e) e (snd i))))"
  by (simp add: setup_sketch_def Let_def split_beta)

lemma halted_setup_sketch:
  "halted (setup_sketch e s) =
     (let r = setTheRoleOfThisDeviceBasedOnItsWiring (delay e) e
                (setupTheESP32Pins (showTheOpeningCredits (setupSerial s)))
      in \<not> fst r
         \<or> (thisIsTheController (snd r) \<longrightarrow> useASwitchbox e) \<and> \<not> fst (initializeESPNOW e (snd r)))"
  by (simp add: setup_sketch_def Let_def split_beta)

lemma bootState_setup_sketch_ctrl:
  "thisIsTheController (bootState (setup_sketch e s)) =
     thisIsTheController (snd (setTheRoleOfThisDeviceBasedOnItsWiring (delay e) e
                (setupTheESP32Pins (showTheOpeningCredits (setupSerial s)))))"
  by (simp add: bootState_setup_sketch Let_def on_main_task_ctrl initializeESPNOW_ctrl)

text \<open>A node that leaves \<^verbatim>\<open>setup()\<close> as the Controller satisfies the invariant.\<close>

lemma setup_sketch_inv:
  assumes "thisIsTheController (bootState (setup_sketch e (powerOn e t0)))"
  shows "controllerInvariant (bootState (setup_sketch e (powerOn e t0)))"
proof -
  let ?s3 = "setupTheESP32Pins (showTheOpeningCredits (setupSerial (powerOn e t0)))"
  let ?r = "setTheRoleOfThisDeviceBasedOnItsWiring (delay e) e ?s3"
  have u: "\<not> sendCb ?s3" "\<not> recvCb ?s3"
    unfolding start_of_setup by (simp_all add: powerOn_def)
  have v: "gpioOut ?s3 controllerRelayConnectionPin = LOW" "NetworkStatus ?s3 = unblocked"
    unfolding start_of_setup by (simp_all add: powerOn_def)
  have "relayAgrees (snd ?r)"
    by (simp add: relayAgrees_def setTheRole_unregistered [OF u] v HIGH_def LOW_def)
  moreover have "thisIsTheController (snd ?r)"
    using assms by (simp only: bootState_setup_sketch_ctrl)
  ultimately have inv: "controllerInvariant (snd ?r)"
    by (simp add: controllerInvariant_def)
  have i: "controllerInvariant (snd (initializeESPNOW e (snd ?r)))"
    by (rule initializeESPNOW_inv [OF inv])
  show ?thesis
    unfolding bootState_setup_sketch Let_def
    using inv i by (simp add: on_main_task_inv inv_simps)
qed

subsection \<open>A wiring problem\<close>

lemma LEDUpdateAsRequried_frame:
  "sendCb (LEDUpdateAsRequried e s) = sendCb s"
  "recvCb (LEDUpdateAsRequried e s) = recvCb s"
  "sent (LEDUpdateAsRequried e s) = sent s"
  "NetworkStatus (LEDUpdateAsRequried e s) = NetworkStatus s"
  "FlashRateOfTheLED (LEDUpdateAsRequried e s) = FlashRateOfTheLED s"
  "gpioOut (LEDUpdateAsRequried e s) controllerRelayConnectionPin
     = gpioOut s controllerRelayConnectionPin"
  by (simp_all add: LEDUpdateAsRequried_def LEDsWrite_def Let_def digitalWrite_def
      controllerRelayConnectionPin_def onboardLEDPin_def externalLEDPin_def)

text \<open>With no callback registered, the loop that flashes the LED sends nothing and
  leaves the relay, \<^verbatim>\<open>NetworkStatus\<close> and the flash rate as they are.\<close>

lemma flashForever_unregistered:
  assumes "\<not> sendCb s" and "\<not> recvCb s"
  shows "\<not> sendCb (flashForever e ds s) \<and> \<not> recvCb (flashForever e ds s)
       \<and> sent (flashForever e ds s) = sent s
       \<and> NetworkStatus (flashForever e ds s) = NetworkStatus s
       \<and> FlashRateOfTheLED (flashForever e ds s) = FlashRateOfTheLED s
       \<and> gpioOut (flashForever e ds s) controllerRelayConnectionPin
           = gpioOut s controllerRelayConnectionPin"
  using assms
proof (induction ds arbitrary: s)
  case Nil
  then show ?case by simp
next
  case (Cons d ds)
  let ?s' = "LEDUpdateAsRequried e (delay e d s)"
  have d: "delay e d s = s\<lparr>now := now s + d\<rparr>"
    using Cons.prems by (rule delay_unregistered)
  have "\<not> sendCb ?s'" "\<not> recvCb ?s'"
    using Cons.prems by (simp_all add: LEDUpdateAsRequried_frame d)
  from Cons.IH [OF this] show ?case
    by (simp add: LEDUpdateAsRequried_frame d)
qed

lemma negotiation_at_boot:
  "fst (setTheRoleOfThisDeviceBasedOnItsWiring (delay e) e
         (setupTheESP32Pins (showTheOpeningCredits (setupSerial (powerOn e t0))))) =
     (closedCount e t0 = 1 \<and> (controllerContactClosed e t0 \<or> useASwitchbox e))"
proof -
  let ?s3 = "setupTheESP32Pins (showTheOpeningCredits (setupSerial (powerOn e t0)))"
  have t: "now ?s3 = t0"
    unfolding start_of_setup by (simp add: powerOn_def)
  show ?thesis
    using setTheRole_result(1) [of "delay e" e ?s3, OF now_delay delay_role]
    unfolding t closedCount_def controllerContactClosed_def by blast
qed

lemma wiring_fault_boot:
  assumes "\<not> (closedCount e t0 = 1 \<and> (controllerContactClosed e t0 \<or> useASwitchbox e))"
  shows "halted (setup_sketch e (powerOn e t0))"
    and "\<not> sendCb (bootState (setup_sketch e (powerOn e t0)))"
    and "\<not> recvCb (bootState (setup_sketch e (powerOn e t0)))"
    and "sent (bootState (setup_sketch e (powerOn e t0))) = []"
    and "NetworkStatus (bootState (setup_sketch e (powerOn e t0))) = unblocked"
    and "FlashRateOfTheLED (bootState (setup_sketch e (powerOn e t0))) = 1000"
    and "gpioOut (bootState (setup_sketch e (powerOn e t0))) controllerRelayConnectionPin = LOW"
proof -
  let ?s3 = "setupTheESP32Pins (showTheOpeningCredits (setupSerial (powerOn e t0)))"
  let ?r = "setTheRoleOfThisDeviceBasedOnItsWiring (delay e) e ?s3"
  have f: "\<not> fst ?r"
    using assms by (simp only: negotiation_at_boot not_False_eq_True)
  have u: "\<not> sendCb ?s3" "\<not> recvCb ?s3"
    unfolding start_of_setup by (simp_all add: powerOn_def)
  have v: "gpioOut ?s3 controllerRelayConnectionPin = LOW" "NetworkStatus ?s3 = unblocked"
    "sent ?s3 = []"
    unfolding start_of_setup by (simp_all add: powerOn_def)
  have b: "bootState (setup_sketch e (powerOn e t0)) = snd ?r"
    using f by (simp add: bootState_setup_sketch Let_def)
  show "halted (setup_sketch e (powerOn e t0))"
    using f by (simp add: halted_setup_sketch Let_def)
  show "\<not> sendCb (bootState (setup_sketch e (powerOn e t0)))"
    "\<not> recvCb (bootState (setup_sketch e (powerOn e t0)))"
    "sent (bootState (setup_sketch e (powerOn e t0))) = []"
    "NetworkStatus (bootState (setup_sketch e (powerOn e t0))) = unblocked"
    "gpioOut (bootState (setup_sketch e (powerOn e t0))) controllerRelayConnectionPin = LOW"
    unfolding b setTheRole_unregistered [OF u] using u v by simp_all
  show "FlashRateOfTheLED (bootState (setup_sketch e (powerOn e t0))) = 1000"
    unfolding b
    using f setTheRole_result(3) [of "delay e" e ?s3, OF now_delay delay_role] by blast
qed

subsection \<open>While the Controller waits for the Switchbox\<close>

lemma blockedController_frame:
  "blockedController g c (Serial_println t s) = blockedController g c s"
  "blockedController g c (Serial_print t s) = blockedController g c s"
  "blockedController g c (snd (esp_now_send e d m s)) = blockedController g c s"
  "blockedController g c (delay_cb n s) = blockedController g c s"
  "blockedController g c (s\<lparr>FlashRateOfTheLED := a\<rparr>) = blockedController g c s"
  "blockedController g c (s\<lparr>nextTouchBaseTimeTarget := b\<rparr>) = blockedController g c s"
  "blockedController g c (s\<lparr>SwitchBoxSwitchStatus := x\<rparr>) = blockedController g c s"
  "blockedController g c (s\<lparr>packedSentSuccesfully := f\<rparr>) = blockedController g c s"
  "blockedController g c (s\<lparr>now := k\<rparr>) = blockedController g c s"
  "blockedController g c (s\<lparr>serial := l\<rparr>) = blockedController g c s"
  "blockedController g c (s\<lparr>sent := p\<rparr>) = blockedController g c s"
  by (simp_all add: blockedController_def Serial_println_def Serial_print_def
      esp_now_send_def delay_cb_def)

lemma blockedController_fields:
  "blockedController g c s \<Longrightarrow> thisIsTheController s"
  "blockedController g c s \<Longrightarrow> NetworkStatus s = blocked"
  by (simp_all add: blockedController_def)

lemmas held_simps = blockedController_frame blockedController_fields

lemma provideTheSwitchboxTheNetworkStatus_held:
  assumes "\<And>n s. blockedController g c s \<Longrightarrow> blockedController g c (dl n s)"
    and "blockedController g c s"
  shows "blockedController g c (provideTheSwitchboxTheNetworkStatus dl e s)"
  using assms by (simp add: held_simps provideTheSwitchboxTheNetworkStatus_def Let_def split_beta)

lemma OnDataSent_held: "blockedController g c s \<Longrightarrow> blockedController g c (OnDataSent e ok s)"
  by (cases ok) (simp_all add: held_simps OnDataSent_True OnDataSent_False)

text \<open>A request to block the network changes nothing when it is blocked already.\<close>

lemma BlockNetwork_block_held:
  "blockedController g c s \<Longrightarrow> blockedController g c (BlockNetwork dl e True rc s)"
  by (simp add: held_simps BlockNetwork_def Let_def Serial_fields)

lemma OnDataRecv_held:
  assumes "blockedController g c s"
    and "transmission m \<noteq> requestControllerUnblockNetwork"
  shows "blockedController g c (OnDataRecv e m s)"
  using assms
  by (simp add: held_simps OnDataRecv_def Let_def BlockNetwork_block_held
      provideTheSwitchboxTheNetworkStatus_held)

lemma deliver_held:
  assumes "blockedController g c s"
    and "case ev of DataSent ok \<Rightarrow> True
         | DataRecv m \<Rightarrow> transmission m \<noteq> requestControllerUnblockNetwork"
  shows "blockedController g c (deliver e ev s)"
  using assms
  by (simp add: deliver_def OnDataSent_held OnDataRecv_held split: radio_event.splits)

lemma foldl_deliver_held:
  assumes "\<forall>ev \<in> set evs. case ev of DataSent ok \<Rightarrow> True
         | DataRecv m \<Rightarrow> transmission m \<noteq> requestControllerUnblockNetwork"
    and "blockedController g c s"
  shows "blockedController g c (foldl (\<lambda>s' ev. deliver e ev (s'\<lparr>now := t\<rparr>)) s evs)"
  using assms
  by (induction evs arbitrary: s) (simp_all add: deliver_held held_simps)

lemma noUnblockRequestsDuring_mono:
  "noUnblockRequestsDuring e a b \<Longrightarrow> a \<le> a' \<Longrightarrow> b' \<le> b \<Longrightarrow> noUnblockRequestsDuring e a' b'"
  unfolding noUnblockRequestsDuring_def by auto

lemma tick_held:
  assumes "noUnblockRequestsDuring e (now s) (now s + 1)" and "blockedController g c s"
  shows "blockedController g c (tick e s)"
proof -
  have "\<forall>ev \<in> set (radio e (now s + 1)). case ev of DataSent ok \<Rightarrow> True
         | DataRecv m \<Rightarrow> transmission m \<noteq> requestControllerUnblockNetwork"
    using assms(1) unfolding noUnblockRequestsDuring_def
    by (drule_tac x = "now s + 1" in bspec) simp_all
  from foldl_deliver_held [OF this assms(2)] show ?thesis
    by (simp add: tick_def Let_def held_simps)
qed

lemma delay_held:
  assumes "noUnblockRequestsDuring e (now s) (now s + n)" and "blockedController g c s"
  shows "blockedController g c (delay e n s)"
  using assms
proof (induction n arbitrary: s)
  case 0
  then show ?case by simp
next
  case (Suc n)
  have "blockedController g c (tick e s)"
    by (rule tick_held [OF noUnblockRequestsDuring_mono [OF Suc.prems(1)] Suc.prems(2)]) simp_all
  moreover have "noUnblockRequestsDuring e (now (tick e s)) (now (tick e s) + n)"
    by (rule noUnblockRequestsDuring_mono [OF Suc.prems(1)]) (simp_all add: now_tick)
  ultimately show ?case
    using Suc.IH by simp
qed

text \<open>The rounds of the wait for the reply, and the whole request, on the main task.\<close>

lemma waitForTheSwitchboxReply_held_main:
  assumes "noUnblockRequestsDuring e (now s) (now s + 10 * k)" and "blockedController g c s"
  shows "blockedController g c (waitForTheSwitchboxReply k (delay e) timeout s)"
  using assms
proof (induction k arbitrary: s)
  case 0
  then show ?case by simp
next
  case (Suc k)
  have "blockedController g c (delay e 10 s)"
    by (rule delay_held [OF noUnblockRequestsDuring_mono [OF Suc.prems(1)] Suc.prems(2)]) simp_all
  moreover have "noUnblockRequestsDuring e (now (delay e 10 s)) (now (delay e 10 s) + 10 * k)"
    by (rule noUnblockRequestsDuring_mono [OF Suc.prems(1)]) (simp_all add: now_delay)
  ultimately show ?case
    using Suc.IH Suc.prems(2) by simp
qed

lemma requestTheSwitchboxStatus_held_main:
  assumes "noUnblockRequestsDuring e (now s) (now s + 2010)" and "blockedController g c s"
  shows "blockedController g c (requestTheSwitchboxStatus (delay e) e s)"
proof -
  let ?s2 = "snd (esp_now_send e remoteSwitchMACAddress
      \<lparr>transmission = requestSwitchboxStatus, status = unknown\<rparr>
      (s\<lparr>SwitchBoxSwitchStatus := unknown\<rparr>))"
  have n2: "now ?s2 = now s"
    by (simp add: esp_now_send_def)
  have h2: "blockedController g c ?s2"
    using assms(2) by (simp add: held_simps)
  have h3: "blockedController g c (delay e 10 ?s2)"
    by (rule delay_held [OF noUnblockRequestsDuring_mono [OF assms(1)] h2]) (simp_all add: n2)
  have "noUnblockRequestsDuring e (now (delay e 10 ?s2)) (now (delay e 10 ?s2) + 10 * 200)"
    by (rule noUnblockRequestsDuring_mono [OF assms(1)]) (simp_all add: now_delay n2)
  then have h4: "blockedController g c
      (waitForTheSwitchboxReply 200 (delay e) timeout (delay e 10 ?s2))" for timeout
    using h3 by (rule waitForTheSwitchboxReply_held_main)
  show ?thesis
    using assms(2) h2 h3 h4
    by (simp add: held_simps requestTheSwitchboxStatus_def Let_def split_beta)
qed

text \<open>\<^verbatim>\<open>BlockNetwork\<close>, asked to unblock a blocked network in a build with a Switchbox,
  decides on the state at the moment of the check.\<close>

lemma BlockNetwork_unblock:
  assumes "thisIsTheController s" and "NetworkStatus s = blocked" and "useASwitchbox e"
  shows "BlockNetwork dl e False rc s =
     (if ControllerSwitchStatus (stateAtTheUnblockCheck dl e rc s) = blocked then
        Serial_println
          ''a request from the Switchbox to unblock network was denied as the Controller is requesting the network be blocked''
          (stateAtTheUnblockCheck dl e rc s)
      else if SwitchBoxSwitchStatus (stateAtTheUnblockCheck dl e rc s) = blocked then
        Serial_println
          ''a request from the Controller to unblock network was denied as the Switchbox is requesting the network be blocked''
          (stateAtTheUnblockCheck dl e rc s)
      else
        Serial_println ''Network unblocked''
          ((digitalWrite controllerRelayConnectionPin LOW (stateAtTheUnblockCheck dl e rc s))
             \<lparr>NetworkStatus := unblocked\<rparr>))"
  using assms
  by (simp add: BlockNetwork_def stateAtTheUnblockCheck_def Let_def Serial_fields)

lemma stateAtTheUnblockCheck_held:
  assumes "rc \<longrightarrow> noUnblockRequestsDuring e (now s) (now s + 2010)"
    and "blockedController g c s"
  shows "blockedController g c (stateAtTheUnblockCheck (delay e) e rc s)"
proof (cases rc)
  case True
  let ?s2 = "(Serial_print ''incoming unblock request'' s)\<lparr>SwitchBoxSwitchStatus := unknown\<rparr>"
  have "noUnblockRequestsDuring e (now ?s2) (now ?s2 + 2010)"
    using assms(1) True by (simp add: Serial_fields)
  moreover have "blockedController g c ?s2"
    using assms(2) by (simp add: held_simps)
  ultimately have "blockedController g c (requestTheSwitchboxStatus (delay e) e ?s2)"
    by (rule requestTheSwitchboxStatus_held_main)
  then show ?thesis
    using True by (simp add: stateAtTheUnblockCheck_def Let_def)
next
  case False
  then show ?thesis
    using assms(2) by (simp add: stateAtTheUnblockCheck_def Let_def held_simps)
qed

text \<open>The wait for the reply of the Switchbox ends by itself: with the deadline
  \<open>10 * k\<close> ms ahead, \<open>k\<close> rounds are enough for the loop condition to be false.\<close>

lemma waitForTheSwitchboxReply_done:
  assumes "\<And>n s. now (dl n s) = now s + n"
    and "timeout = millis s + 10 * word_of_nat k"
  shows "\<not> (millis (waitForTheSwitchboxReply k dl timeout s) < timeout
            \<and> SwitchBoxSwitchStatus (waitForTheSwitchboxReply k dl timeout s) = unknown)"
  using assms(2)
proof (induction k arbitrary: s)
  case 0
  then show ?case by simp
next
  case (Suc k)
  have "millis (dl 10 s) = millis s + 10"
    by (simp add: millis_def assms(1))
  with Suc.prems have "timeout = millis (dl 10 s) + 10 * word_of_nat k"
    by (simp add: algebra_simps)
  from Suc.IH [OF this] show ?case by simp
qed

lemma waitForTheSwitchboxReply_200_done:
  "\<not> (millis (waitForTheSwitchboxReply 200 (delay e) (millis s + 2000) s) < millis s + 2000
       \<and> SwitchBoxSwitchStatus (waitForTheSwitchboxReply 200 (delay e) (millis s + 2000) s) = unknown)"
  by (rule waitForTheSwitchboxReply_done) (simp_all add: now_delay)

subsection \<open>A run in which the Switchbox replies\<close>

lemma delay_plus: "delay e (m + n) s = delay e n (delay e m s)"
  by (induction m arbitrary: s) simp_all

lemma delay_quiet:
  "(\<And>t. now s < t \<Longrightarrow> t \<le> now s + n \<Longrightarrow> radio e t = []) \<Longrightarrow>
   delay e n s = s\<lparr>now := now s + n\<rparr>"
proof (induction n arbitrary: s)
  case 0
  then show ?case by simp
next
  case (Suc n)
  have t: "tick e s = s\<lparr>now := now s + 1\<rparr>"
    using Suc.prems [of "now s + 1"] by (simp add: tick_def Let_def)
  have "delay e n (tick e s) = (tick e s)\<lparr>now := now (tick e s) + n\<rparr>"
    by (rule Suc.IH) (use Suc.prems in \<open>simp add: t\<close>)
  then show ?case by (simp add: t)
qed

text \<open>A wait of \<open>n + 1\<close> ms during which the radio invokes one callback, in the last
  millisecond.\<close>

lemma delay_one_event:
  assumes "\<And>t. now s < t \<Longrightarrow> t \<le> now s + n \<Longrightarrow> radio e t = []"
    and "radio e (now s + n + 1) = [ev]"
  shows "delay e (n + 1) s = (deliver e ev (s\<lparr>now := now s + n + 1\<rparr>))\<lparr>now := now s + n + 1\<rparr>"
proof -
  have q: "delay e n s = s\<lparr>now := now s + n\<rparr>"
    by (rule delay_quiet) (rule assms(1))
  have "delay e (n + 1) s = tick e (delay e n s)"
    unfolding delay_plus by simp
  then show ?thesis
    using assms(2) by (simp add: q tick_def Let_def)
qed

lemma waitForTheSwitchboxReply_over:
  "\<not> (millis s < timeout \<and> SwitchBoxSwitchStatus s = unknown) \<Longrightarrow>
   waitForTheSwitchboxReply k dl timeout s = s"
  by (cases k) auto

lemma requestTheSwitchboxStatus_reply:
  assumes s: "thisIsTheController s" "sendCb s" "recvCb s" "now s = 100"
    and e: "sendResult e (length (sent s))"
      "radio e = (\<lambda>t. if t = 105 then [DataSent True]
                       else if t = 120
                       then [DataRecv \<lparr>transmission = switchboxStatusReply, status = blocked\<rparr>]
                       else [])"
  shows "SwitchBoxSwitchStatus (requestTheSwitchboxStatus (delay e) e s) = blocked"
proof -
  define s2 where "s2 = snd (esp_now_send e remoteSwitchMACAddress
      \<lparr>transmission = requestSwitchboxStatus, status = unknown\<rparr>
      (s\<lparr>SwitchBoxSwitchStatus := unknown\<rparr>))"
  have s2: "thisIsTheController s2" "sendCb s2" "recvCb s2" "now s2 = 100"
    "SwitchBoxSwitchStatus s2 = unknown"
    using s by (simp_all add: s2_def esp_now_send_def)
  define a where "a = delay e 4 s2"
  have a: "a = s2\<lparr>now := 104\<rparr>"
    unfolding a_def by (subst delay_quiet) (simp_all add: s2 e(2))
  define b where "b = delay e 5 s2"
  have "delay e (4 + 1) s2 = (deliver e (DataSent True) (s2\<lparr>now := now s2 + 4 + 1\<rparr>))\<lparr>now := now s2 + 4 + 1\<rparr>"
    by (rule delay_one_event) (simp_all add: s2 e(2))
  then have b: "b = (OnDataSent e True (s2\<lparr>now := 105\<rparr>))\<lparr>now := 105\<rparr>"
    by (simp add: b_def s2 deliver_def)
  define s3 where "s3 = delay e 10 s2"
  have "delay e (5 + 5) s2 = delay e 5 b"
    unfolding delay_plus b_def ..
  moreover have "delay e 5 b = b\<lparr>now := now b + 5\<rparr>"
    by (rule delay_quiet) (simp_all add: b e(2))
  ultimately have s3: "s3 = b\<lparr>now := 110\<rparr>"
    by (simp add: s3_def b)
  have s3f: "thisIsTheController s3" "sendCb s3" "recvCb s3" "now s3 = 110"
    "SwitchBoxSwitchStatus s3 = unknown" "packedSentSuccesfully s3"
    by (simp_all add: s3 b OnDataSent_True s2)
  define s4 where "s4 = delay e 10 s3"
  have "delay e (9 + 1) s3 =
      (deliver e (DataRecv \<lparr>transmission = switchboxStatusReply, status = blocked\<rparr>)
         (s3\<lparr>now := now s3 + 9 + 1\<rparr>))\<lparr>now := now s3 + 9 + 1\<rparr>"
    by (rule delay_one_event) (simp_all add: s3f e(2))
  then have s4: "SwitchBoxSwitchStatus s4 = blocked"
    by (simp add: s4_def s3f deliver_def OnDataRecv_def Let_def Serial_fields)
  have w: "waitForTheSwitchboxReply 200 (delay e) (millis s3 + 2000) s3 = s4"
  proof -
    have "waitForTheSwitchboxReply (Suc 199) (delay e) (millis s3 + 2000) s3
        = waitForTheSwitchboxReply 199 (delay e) (millis s3 + 2000) s4"
      unfolding waitForTheSwitchboxReply.simps s4_def
      by (simp add: millis_def s3f)
    also have "\<dots> = s4"
      by (rule waitForTheSwitchboxReply_over) (simp add: s4)
    finally show ?thesis by simp
  qed
  have ok: "fst (esp_now_send e remoteSwitchMACAddress
      \<lparr>transmission = requestSwitchboxStatus, status = unknown\<rparr>
      (s\<lparr>SwitchBoxSwitchStatus := unknown\<rparr>))"
    using e(1) by (simp add: esp_now_send_def)
  have "requestTheSwitchboxStatus (delay e) e s = Serial_println ''Switchbox switch is blocked'' s4"
    using s(1) ok s3f(6) s4 w
    by (simp add: requestTheSwitchboxStatus_def Let_def split_beta s2_def [symmetric]
        s3_def [symmetric])
  then show ?thesis
    by (simp add: Serial_fields s4)
qed

subsection \<open>A run in which a request to unblock arrives during the wait\<close>

lemma OnDataRecv_unblock_request_fields:
  assumes "thisIsTheController s" and "NetworkStatus s = blocked" and "useASwitchbox e"
    and "ControllerSwitchStatus s \<noteq> blocked"
    and "transmission m = requestControllerUnblockNetwork"
  shows "thisIsTheController (OnDataRecv e m s)"
    and "sendCb (OnDataRecv e m s) = sendCb s"
    and "recvCb (OnDataRecv e m s) = recvCb s"
    and "packedSentSuccesfully (OnDataRecv e m s) = packedSentSuccesfully s"
    and "ControllerSwitchStatus (OnDataRecv e m s) = ControllerSwitchStatus s"
    and "SwitchBoxSwitchStatus (OnDataRecv e m s) = unknown"
    and "NetworkStatus (OnDataRecv e m s) = unblocked"
    and "gpioOut (OnDataRecv e m s) controllerRelayConnectionPin = LOW"
  using assms
  by (simp_all add: OnDataRecv_def BlockNetwork_def provideTheSwitchboxTheNetworkStatus_def
      Let_def split_beta Serial_fields esp_now_send_def delay_cb_def digitalWrite_def)

lemma OnDataRecv_reply_fields:
  assumes "thisIsTheController s" and "transmission m = switchboxStatusReply"
  shows "SwitchBoxSwitchStatus (OnDataRecv e m s) = status m"
    and "ControllerSwitchStatus (OnDataRecv e m s) = ControllerSwitchStatus s"
    and "NetworkStatus (OnDataRecv e m s) = NetworkStatus s"
    and "gpioOut (OnDataRecv e m s) = gpioOut s"
  using assms by (simp_all add: OnDataRecv_def Let_def Serial_fields)

lemma requestTheSwitchboxStatus_race:
  assumes s: "thisIsTheController s" "sendCb s" "recvCb s" "now s = 100"
      "NetworkStatus s = blocked" "ControllerSwitchStatus s \<noteq> blocked"
    and e: "sendResult e (length (sent s))" "useASwitchbox e"
      "radio e = (\<lambda>t. if t = 105 then [DataSent True]
                       else if t = 115
                       then [DataRecv \<lparr>transmission = requestControllerUnblockNetwork,
                                       status = unknown\<rparr>]
                       else if t = 120
                       then [DataRecv \<lparr>transmission = switchboxStatusReply, status = blocked\<rparr>]
                       else [])"
  shows "SwitchBoxSwitchStatus (requestTheSwitchboxStatus (delay e) e s) = blocked"
    and "ControllerSwitchStatus (requestTheSwitchboxStatus (delay e) e s) = ControllerSwitchStatus s"
    and "NetworkStatus (requestTheSwitchboxStatus (delay e) e s) = unblocked"
    and "gpioOut (requestTheSwitchboxStatus (delay e) e s) controllerRelayConnectionPin = LOW"
proof -
  define s2 where "s2 = snd (esp_now_send e remoteSwitchMACAddress
      \<lparr>transmission = requestSwitchboxStatus, status = unknown\<rparr>
      (s\<lparr>SwitchBoxSwitchStatus := unknown\<rparr>))"
  have s2: "thisIsTheController s2" "sendCb s2" "recvCb s2" "now s2 = 100"
    "SwitchBoxSwitchStatus s2 = unknown" "NetworkStatus s2 = blocked"
    "ControllerSwitchStatus s2 = ControllerSwitchStatus s"
    using s by (simp_all add: s2_def esp_now_send_def)
  define b where "b = delay e 5 s2"
  have "delay e (4 + 1) s2 = (deliver e (DataSent True) (s2\<lparr>now := now s2 + 4 + 1\<rparr>))\<lparr>now := now s2 + 4 + 1\<rparr>"
    by (rule delay_one_event) (simp_all add: s2 e(3))
  then have b: "b = (OnDataSent e True (s2\<lparr>now := 105\<rparr>))\<lparr>now := 105\<rparr>"
    by (simp add: b_def s2 deliver_def)
  define s3 where "s3 = delay e 10 s2"
  have "delay e (5 + 5) s2 = delay e 5 b"
    unfolding delay_plus b_def ..
  moreover have "delay e 5 b = b\<lparr>now := now b + 5\<rparr>"
    by (rule delay_quiet) (simp_all add: b e(3))
  ultimately have s3: "s3 = b\<lparr>now := 110\<rparr>"
    by (simp add: s3_def b)
  have s3f: "thisIsTheController s3" "sendCb s3" "recvCb s3" "now s3 = 110"
    "SwitchBoxSwitchStatus s3 = unknown" "packedSentSuccesfully s3" "NetworkStatus s3 = blocked"
    "ControllerSwitchStatus s3 = ControllerSwitchStatus s"
    by (simp_all add: s3 b OnDataSent_True s2)
  define m where "m = \<lparr>transmission = requestControllerUnblockNetwork, status = unknown\<rparr>"
  define c where "c = delay e 5 s3"
  have "delay e (4 + 1) s3 = (deliver e (DataRecv m) (s3\<lparr>now := now s3 + 4 + 1\<rparr>))\<lparr>now := now s3 + 4 + 1\<rparr>"
    by (rule delay_one_event) (simp_all add: s3f e(3) m_def)
  then have c: "c = (OnDataRecv e m (s3\<lparr>now := 115\<rparr>))\<lparr>now := 115\<rparr>"
    by (simp add: c_def s3f deliver_def)
  note g = OnDataRecv_unblock_request_fields [of "s3\<lparr>now := 115\<rparr>" e m]
  have cf: "thisIsTheController c" "recvCb c" "now c = 115" "SwitchBoxSwitchStatus c = unknown"
    "NetworkStatus c = unblocked" "gpioOut c controllerRelayConnectionPin = LOW"
    "ControllerSwitchStatus c = ControllerSwitchStatus s"
    using g s(6) by (simp_all add: c s3f e(2) m_def)
  define r where "r = \<lparr>transmission = switchboxStatusReply, status = blocked\<rparr>"
  define s4 where "s4 = delay e 10 s3"
  have "delay e (4 + 1) c = (deliver e (DataRecv r) (c\<lparr>now := now c + 4 + 1\<rparr>))\<lparr>now := now c + 4 + 1\<rparr>"
    by (rule delay_one_event) (simp_all add: cf e(3) r_def)
  moreover have "delay e (5 + 5) s3 = delay e 5 c"
    unfolding delay_plus c_def ..
  ultimately have s4: "s4 = (OnDataRecv e r (c\<lparr>now := 120\<rparr>))\<lparr>now := 120\<rparr>"
    by (simp add: s4_def cf deliver_def)
  note h = OnDataRecv_reply_fields [of "c\<lparr>now := 120\<rparr>" r e]
  have s4f: "SwitchBoxSwitchStatus s4 = blocked" "NetworkStatus s4 = unblocked"
    "gpioOut s4 controllerRelayConnectionPin = LOW"
    "ControllerSwitchStatus s4 = ControllerSwitchStatus s"
    using h by (simp_all add: s4 cf r_def)
  have w: "waitForTheSwitchboxReply 200 (delay e) (millis s3 + 2000) s3 = s4"
  proof -
    have "waitForTheSwitchboxReply (Suc 199) (delay e) (millis s3 + 2000) s3
        = waitForTheSwitchboxReply 199 (delay e) (millis s3 + 2000) s4"
      unfolding waitForTheSwitchboxReply.simps s4_def
      by (simp add: millis_def s3f)
    also have "\<dots> = s4"
      by (rule waitForTheSwitchboxReply_over) (simp add: s4f)
    finally show ?thesis by simp
  qed
  have ok: "fst (esp_now_send e remoteSwitchMACAddress
      \<lparr>transmission = requestSwitchboxStatus, status = unknown\<rparr>
      (s\<lparr>SwitchBoxSwitchStatus := unknown\<rparr>))"
    using e(1) by (simp add: esp_now_send_def)
  have "requestTheSwitchboxStatus (delay e) e s = Serial_println ''Switchbox switch is blocked'' s4"
    using s(1) ok s3f(6) s4f(1) w
    by (simp add: requestTheSwitchboxStatus_def Let_def split_beta s2_def [symmetric]
        s3_def [symmetric])
  then show "SwitchBoxSwitchStatus (requestTheSwitchboxStatus (delay e) e s) = blocked"
    and "ControllerSwitchStatus (requestTheSwitchboxStatus (delay e) e s) = ControllerSwitchStatus s"
    and "NetworkStatus (requestTheSwitchboxStatus (delay e) e s) = unblocked"
    and "gpioOut (requestTheSwitchboxStatus (delay e) e s) controllerRelayConnectionPin = LOW"
    by (simp_all add: Serial_fields s4f)
qed

text \<open>The whole call of \<^verbatim>\<open>BlockNetwork\<close> in that run: the request that arrives during
  the wait is granted by the handler, the reply that follows makes the call deny
  its own request, and the call returns with the relay LOW.\<close>

lemma BlockNetwork_race:
  "gpioOut controllerReleased controllerRelayConnectionPin = HIGH"
  "SwitchBoxSwitchStatus (stateAtTheUnblockCheck (delay raceBench) raceBench True controllerReleased)
     = blocked"
  "serial (BlockNetwork (delay raceBench) raceBench False True controllerReleased) =
     serial (stateAtTheUnblockCheck (delay raceBench) raceBench True controllerReleased) @
       [''a request from the Controller to unblock network was denied as the Switchbox is requesting the network be blocked''
          @ [CHR 0x0D, CHR 0x0A]]"
  "gpioOut (BlockNetwork (delay raceBench) raceBench False True controllerReleased)
     controllerRelayConnectionPin = LOW"
  "NetworkStatus (BlockNetwork (delay raceBench) raceBench False True controllerReleased) = unblocked"
  "ControllerSwitchStatus (BlockNetwork (delay raceBench) raceBench False True controllerReleased)
     = ControllerSwitchStatus controllerReleased"
proof -
  let ?s2 = "(Serial_print ''incoming unblock request'' controllerReleased)
      \<lparr>SwitchBoxSwitchStatus := unknown\<rparr>"
  let ?sc = "stateAtTheUnblockCheck (delay raceBench) raceBench True controllerReleased"
  have sc: "?sc = requestTheSwitchboxStatus (delay raceBench) raceBench ?s2"
    by (simp add: stateAtTheUnblockCheck_def Let_def)
  have p: "thisIsTheController ?s2" "sendCb ?s2" "recvCb ?s2" "now ?s2 = 100"
    "NetworkStatus ?s2 = blocked" "ControllerSwitchStatus ?s2 \<noteq> blocked"
    "ControllerSwitchStatus ?s2 = unblocked"
    by (simp_all add: Serial_fields controllerReleased_def controllerBlocked_def)
  have q: "sendResult raceBench (length (sent ?s2))" "useASwitchbox raceBench"
    "radio raceBench = (\<lambda>t. if t = 105 then [DataSent True]
                       else if t = 115
                       then [DataRecv \<lparr>transmission = requestControllerUnblockNetwork,
                                       status = unknown\<rparr>]
                       else if t = 120
                       then [DataRecv \<lparr>transmission = switchboxStatusReply, status = blocked\<rparr>]
                       else [])"
    by (simp_all add: raceBench_def controllerBench_def)
  note r = requestTheSwitchboxStatus_race [OF p(1-6) q]
  have f: "SwitchBoxSwitchStatus ?sc = blocked" "ControllerSwitchStatus ?sc = unblocked"
    "NetworkStatus ?sc = unblocked" "gpioOut ?sc controllerRelayConnectionPin = LOW"
    unfolding sc using r p(7) by simp_all
  have h: "thisIsTheController controllerReleased" "NetworkStatus controllerReleased = blocked"
    "useASwitchbox raceBench"
    by (simp_all add: controllerReleased_def controllerBlocked_def raceBench_def controllerBench_def)
  note eq = BlockNetwork_unblock [OF h, of "delay raceBench" True]
  show "gpioOut controllerReleased controllerRelayConnectionPin = HIGH"
    by (simp add: controllerReleased_def controllerBlocked_def controllerRelayConnectionPin_def
        HIGH_def)
  show "SwitchBoxSwitchStatus ?sc = blocked"
    by (rule f)
  show "serial (BlockNetwork (delay raceBench) raceBench False True controllerReleased) =
     serial ?sc @
       [''a request from the Controller to unblock network was denied as the Switchbox is requesting the network be blocked''
          @ [CHR 0x0D, CHR 0x0A]]"
    unfolding eq using f by (simp add: Serial_println_def)
  show "gpioOut (BlockNetwork (delay raceBench) raceBench False True controllerReleased)
     controllerRelayConnectionPin = LOW"
    "NetworkStatus (BlockNetwork (delay raceBench) raceBench False True controllerReleased) = unblocked"
    unfolding eq using f by (simp_all add: Serial_fields)
  show "ControllerSwitchStatus (BlockNetwork (delay raceBench) raceBench False True controllerReleased)
     = ControllerSwitchStatus controllerReleased"
    unfolding eq using f by (simp add: Serial_fields controllerReleased_def)
qed

subsection \<open>Start-up from any levels on the output pins\<close>






subsection \<open>The deadline of the next probe\<close>

text \<open>
  On success \<^verbatim>\<open>OnDataSent\<close> clears the flash rate to 0 and sets the deadline to the
  clock plus 30 s; on failure it sets the flash rate of a communications problem
  (333) and sets the deadline to the clock plus 5 s; a node that is not the
  Controller (the Switchbox) adds 1.5 s in both cases. The sums are those of 32-bit
  \<^verbatim>\<open>unsigned long\<close>. As long as they do not wrap around,
  \<^verbatim>\<open>periodicCheckToEnsureCommunicationsAreOK\<close>, called \<open>d\<close> ms after a failed send,
  does nothing when \<open>d\<close> is at most the short interval and probes the peer when it
  is more; after a successful send the same holds with the good interval.
\<close>

theorem OnDataSent_alarm_and_deadline:
  "FlashRateOfTheLED (OnDataSent e True s) = 0
   \<and> nextTouchBaseTimeTarget (OnDataSent e True s) =
       millis s + 30000 + (if thisIsTheController s then 0 else 1500)
   \<and> FlashRateOfTheLED (OnDataSent e False s) = 333
   \<and> nextTouchBaseTimeTarget (OnDataSent e False s) =
       millis s + 5000 + (if thisIsTheController s then 0 else 1500)
   \<and> (now s + d < 2 ^ 32 \<and> now s + 31500 < 2 ^ 32 \<longrightarrow>
        (periodicCheckToEnsureCommunicationsAreOK dl e ((OnDataSent e ok s)\<lparr>now := now s + d\<rparr>) =
          (if d > (if ok then 30000 else 5000) + (if thisIsTheController s then 0 else 1500)
           then (if thisIsTheController s
                 then provideTheSwitchboxTheNetworkStatus dl e
                        ((OnDataSent e ok s)
                           \<lparr>now := now s + d, nextTouchBaseTimeTarget := word_of_nat (now s + d) + 2000\<rparr>)
                 else provideTheControllerTheSwitchboxStatus dl e
                        ((OnDataSent e ok s)
                           \<lparr>now := now s + d, nextTouchBaseTimeTarget := word_of_nat (now s + d) + 2000\<rparr>))
           else (OnDataSent e ok s)\<lparr>now := now s + d\<rparr>)))"
proof -
  have due: "(millis ((OnDataSent e ok s)\<lparr>now := now s + d\<rparr>)
                > nextTouchBaseTimeTarget ((OnDataSent e ok s)\<lparr>now := now s + d\<rparr>)) =
      (d > (if ok then 30000 else 5000) + (if thisIsTheController s then 0 else 1500))"
    if "now s + d < 2 ^ 32" "now s + 31500 < 2 ^ 32" for ok
  proof -
    let ?k = "(if ok then 30000 else 5000) + (if thisIsTheController s then 0 else 1500 :: nat)"
    have k: "now s + ?k < 2 ^ 32" using that by simp
    have "nextTouchBaseTimeTarget (OnDataSent e ok s) = word_of_nat (now s) + word_of_nat ?k"
      by (cases ok) (simp_all add: OnDataSent_True OnDataSent_False millis_def)
    then show ?thesis
      using later_than_deadline [OF that(1) k] by (simp add: millis_def)
  qed
  have ctrl: "thisIsTheController (OnDataSent e ok s) = thisIsTheController s" for ok
    by (cases ok) (simp_all add: OnDataSent_True OnDataSent_False)
  have "periodicCheckToEnsureCommunicationsAreOK dl e ((OnDataSent e ok s)\<lparr>now := now s + d\<rparr>) =
          (if d > (if ok then 30000 else 5000) + (if thisIsTheController s then 0 else 1500)
           then (if thisIsTheController s
                 then provideTheSwitchboxTheNetworkStatus dl e
                        ((OnDataSent e ok s)
                           \<lparr>now := now s + d, nextTouchBaseTimeTarget := word_of_nat (now s + d) + 2000\<rparr>)
                 else provideTheControllerTheSwitchboxStatus dl e
                        ((OnDataSent e ok s)
                           \<lparr>now := now s + d, nextTouchBaseTimeTarget := word_of_nat (now s + d) + 2000\<rparr>))
           else (OnDataSent e ok s)\<lparr>now := now s + d\<rparr>)"
    if "now s + d < 2 ^ 32" "now s + 31500 < 2 ^ 32" for ok
    unfolding periodicCheckToEnsureCommunicationsAreOK_def due [OF that]
    by (simp add: Let_def ctrl millis_def del: of_nat_add)
  then show ?thesis
    by (simp add: OnDataSent_True OnDataSent_False del: of_nat_add)
qed

theorem OnDataSent_alarm_and_deadline_witness:
  "now controllerBlocked + 5001 < 2 ^ 32
   \<and> now controllerBlocked + 31500 < 2 ^ 32
   \<and> sent (periodicCheckToEnsureCommunicationsAreOK delay_cb controllerBench
        ((OnDataSent controllerBench False controllerBlocked)\<lparr>now := now controllerBlocked + 5001\<rparr>)) =
      [(remoteSwitchMACAddress, \<lparr>transmission = networkStatusReply, status = blocked\<rparr>)]"
  using OnDataSent_alarm_and_deadline [of controllerBench controllerBlocked 5001 delay_cb False]
  by (simp add: controllerBlocked_def powerOn_def controllerBench_def OnDataSent_False
      provideTheSwitchboxTheNetworkStatus_def Let_def Serial_println_def esp_now_send_def
      delay_cb_def)

section \<open>The claims\<close>

text \<open>
  \<^bold>\<open>C9.\<close> \<^verbatim>\<open>OnDataSent\<close> adds the interval to the 32-bit clock and
  \<^verbatim>\<open>periodicCheckToEnsureCommunicationsAreOK\<close> probes when \<^verbatim>\<open>millis() > nextTouchBaseTimeTarget\<close>,
  so the next probe is not the one of the claim when the sum reaches or passes
  \<open>2\<^sup>3\<^sup>2\<close>, 49.7 days after power-on. A send that fails on the Controller at
  \<open>2\<^sup>3\<^sup>2 - 5001\<close> ms raises the alarm and sets the deadline to \<open>2\<^sup>3\<^sup>2 - 1\<close>, the
  largest value of the clock: however much time \<open>d\<close> passes, the periodic check
  does nothing, where the claim has a probe within 5 s. A send that succeeds at
  \<open>2\<^sup>3\<^sup>2 - 1000\<close> ms sets the deadline to 29000, and the periodic check probes the
  Switchbox one millisecond later, where the claim has the good interval of 30 s.
\<close>

theorem OnDataSent_deadline_wraps:
  "thisIsTheController (controllerAt 4294962295)
   \<and> millis (controllerAt 4294962295) = 4294962295
   \<and> FlashRateOfTheLED (OnDataSent e False (controllerAt 4294962295)) = 333
   \<and> nextTouchBaseTimeTarget (OnDataSent e False (controllerAt 4294962295)) = 4294967295
   \<and> periodicCheckToEnsureCommunicationsAreOK dl e
        ((OnDataSent e False (controllerAt 4294962295))\<lparr>now := 4294962295 + d\<rparr>) =
      (OnDataSent e False (controllerAt 4294962295))\<lparr>now := 4294962295 + d\<rparr>
   \<and> millis (controllerAt 4294966296) = 4294966296
   \<and> FlashRateOfTheLED (OnDataSent e True (controllerAt 4294966296)) = 0
   \<and> nextTouchBaseTimeTarget (OnDataSent e True (controllerAt 4294966296)) = 29000
   \<and> sent (OnDataSent controllerBench True (controllerAt 4294966296)) = []
   \<and> sent (periodicCheckToEnsureCommunicationsAreOK delay_cb controllerBench
        ((OnDataSent controllerBench True (controllerAt 4294966296))\<lparr>now := 4294966297\<rparr>)) =
      [(remoteSwitchMACAddress, \<lparr>transmission = networkStatusReply, status = blocked\<rparr>)]"
proof -
  have c: "thisIsTheController (controllerAt t)" "sent (controllerAt t) = []"
    "NetworkStatus (controllerAt t) = blocked" "now (controllerAt t) = t" for t
    by (simp_all add: controllerAt_def controllerBlocked_def powerOn_def)
  have m: "millis (controllerAt 4294962295) = 4294962295"
    "millis (controllerAt 4294966296) = 4294966296"
    by (simp_all add: millis_def c)
  have f: "nextTouchBaseTimeTarget (OnDataSent e False (controllerAt 4294962295)) = 4294967295"
    "FlashRateOfTheLED (OnDataSent e False (controllerAt 4294962295)) = 333"
    by (simp_all add: OnDataSent_False c m)
  have t: "nextTouchBaseTimeTarget (OnDataSent e True (controllerAt 4294966296)) = 29000"
    "FlashRateOfTheLED (OnDataSent e True (controllerAt 4294966296)) = 0"
    "sent (OnDataSent controllerBench True (controllerAt 4294966296)) = []"
    by (simp_all add: OnDataSent_True c m)
  have "\<not> (4294967295 :: 32 word) < x" for x
  proof -
    have "unat x < 2 ^ 32"
      using unsigned_less [of x, where ?'a = nat] by simp
    then show ?thesis
      by (simp add: word_less_nat_alt)
  qed
  then have never: "periodicCheckToEnsureCommunicationsAreOK dl e
        ((OnDataSent e False (controllerAt 4294962295))\<lparr>now := 4294962295 + d\<rparr>) =
      (OnDataSent e False (controllerAt 4294962295))\<lparr>now := 4294962295 + d\<rparr>"
    by (simp add: periodicCheckToEnsureCommunicationsAreOK_def f)
  have due: "(29000 :: 32 word) < 4294966297"
    by simp
  have early: "sent (periodicCheckToEnsureCommunicationsAreOK delay_cb controllerBench
        ((OnDataSent controllerBench True (controllerAt 4294966296))\<lparr>now := 4294966297\<rparr>)) =
      [(remoteSwitchMACAddress, \<lparr>transmission = networkStatusReply, status = blocked\<rparr>)]"
    using due
    by (simp add: periodicCheckToEnsureCommunicationsAreOK_def t OnDataSent_True c millis_def
        provideTheSwitchboxTheNetworkStatus_def Let_def Serial_fields esp_now_send_def
        delay_cb_def controllerBench_def)
  show ?thesis
    using c(1) m f t never early by simp
qed

text \<open>
  \<^bold>\<open>C4.\<close> On the Controller, a call of \<^verbatim>\<open>BlockNetwork\<close> that requests a block while the
  network is already blocked changes nothing but the serial log; otherwise the block
  is done at once: the relay pin is driven HIGH and \<^verbatim>\<open>NetworkStatus\<close> becomes blocked,
  whatever \<^verbatim>\<open>ControllerSwitchStatus\<close> and \<^verbatim>\<open>SwitchBoxSwitchStatus\<close> are, without a
  wait and without a packet. A request to unblock while the network is already
  unblocked changes nothing but the serial log either.
\<close>

theorem BlockNetwork_block_and_idempotence:
  assumes "thisIsTheController s"
  shows "(NetworkStatus s = blocked \<longrightarrow>
            BlockNetwork dl e True rc s =
              s\<lparr>serial := serial s @
                 [''incoming block request'',
                  ''a request to block network was ignored as the network is already blocked''
                    @ [CHR 0x0D, CHR 0x0A]]\<rparr>)
       \<and> (NetworkStatus s \<noteq> blocked \<longrightarrow>
            BlockNetwork dl e True rc s =
              s\<lparr>gpioOut := (gpioOut s)(controllerRelayConnectionPin := HIGH),
                NetworkStatus := blocked,
                serial := serial s @
                  [''incoming block request'', ''Network blocked'' @ [CHR 0x0D, CHR 0x0A]]\<rparr>)
       \<and> (NetworkStatus s = unblocked \<longrightarrow>
            BlockNetwork dl e False rc s =
              s\<lparr>serial := serial s @
                 [''incoming unblock request'',
                  ''a request to unblock network was ignored as the network is already unblocked''
                    @ [CHR 0x0D, CHR 0x0A]]\<rparr>)"
  using assms
  by (simp add: BlockNetwork_def Let_def Serial_println_def Serial_print_def digitalWrite_def)

theorem BlockNetwork_block_and_idempotence_witness:
  "thisIsTheController controllerBlocked
   \<and> NetworkStatus controllerBlocked = blocked
   \<and> BlockNetwork delay_cb controllerBench True False controllerBlocked =
       controllerBlocked\<lparr>serial := serial controllerBlocked @
         [''incoming block request'',
          ''a request to block network was ignored as the network is already blocked''
            @ [CHR 0x0D, CHR 0x0A]]\<rparr>
   \<and> thisIsTheController (controllerBlocked\<lparr>NetworkStatus := unblocked\<rparr>)
   \<and> NetworkStatus (controllerBlocked\<lparr>NetworkStatus := unblocked\<rparr>) \<noteq> blocked
   \<and> NetworkStatus (BlockNetwork delay_cb controllerBench True False
         (controllerBlocked\<lparr>NetworkStatus := unblocked\<rparr>)) = blocked
   \<and> gpioOut (BlockNetwork delay_cb controllerBench True False
         (controllerBlocked\<lparr>NetworkStatus := unblocked\<rparr>)) controllerRelayConnectionPin = HIGH
   \<and> NetworkStatus (controllerBlocked\<lparr>NetworkStatus := unblocked\<rparr>) = unblocked
   \<and> NetworkStatus (BlockNetwork delay_cb controllerBench False False
         (controllerBlocked\<lparr>NetworkStatus := unblocked\<rparr>)) = unblocked"
  using BlockNetwork_block_and_idempotence [of controllerBlocked delay_cb controllerBench False]
    BlockNetwork_block_and_idempotence
      [of "controllerBlocked\<lparr>NetworkStatus := unblocked\<rparr>" delay_cb controllerBench False]
  by (simp add: controllerBlocked_def)

text \<open>
  \<^bold>\<open>C8\<close> (as amended). For every inbound message whose kind the receiving node does not
  handle (on the Controller \<^verbatim>\<open>networkStatusReply\<close> and \<^verbatim>\<open>requestSwitchboxStatus\<close>; on a
  node that is not the Controller the four other kinds), \<^verbatim>\<open>OnDataRecv\<close> sets the
  flash rate of a communications problem (333), resets the deadline to the clock plus
  30 s (plus 1.5 s on a node that is not the Controller), as it does for every inbound
  message, logs the error, and changes nothing else: the three status variables,
  the relay and the clock are as before.
\<close>

theorem OnDataRecv_unexpected_kind:
  assumes "if thisIsTheController s
           then transmission m \<in> {networkStatusReply, requestSwitchboxStatus}
           else transmission m \<in> {requestNetworkStatus, switchboxStatusReply,
                  requestControllerBlockNetwork, requestControllerUnblockNetwork}"
  shows "OnDataRecv e m s =
           s\<lparr>nextTouchBaseTimeTarget :=
                millis s + 30000 + (if thisIsTheController s then 0 else 1500),
             FlashRateOfTheLED := 333,
             serial := serial s @ [''Error: an unknown request was received'']\<rparr>"
  using assms
  by (auto simp add: OnDataRecv_def Let_def Serial_print_def millis_def
      touchBaseTimePeriodWhenAllIsGood_def touchbaseOffsetsForSwitchbox_def
      FlashRateOfTheLEDWhenThereIsACommunicationsProblemBetweenTheControllerAndSwitch_def
      split: if_splits)

theorem OnDataRecv_unexpected_kind_witness:
  "(if thisIsTheController controllerBlocked
    then transmission \<lparr>transmission = networkStatusReply, status = blocked\<rparr>
           \<in> {networkStatusReply, requestSwitchboxStatus}
    else transmission \<lparr>transmission = networkStatusReply, status = blocked\<rparr>
           \<in> {requestNetworkStatus, switchboxStatusReply,
               requestControllerBlockNetwork, requestControllerUnblockNetwork})
   \<and> FlashRateOfTheLED (OnDataRecv controllerBench
        \<lparr>transmission = networkStatusReply, status = blocked\<rparr> controllerBlocked) = 333
   \<and> NetworkStatus (OnDataRecv controllerBench
        \<lparr>transmission = networkStatusReply, status = blocked\<rparr> controllerBlocked) = blocked
   \<and> nextTouchBaseTimeTarget (OnDataRecv controllerBench
        \<lparr>transmission = networkStatusReply, status = blocked\<rparr> controllerBlocked) = 30100"
  using OnDataRecv_unexpected_kind
    [of controllerBlocked "\<lparr>transmission = networkStatusReply, status = blocked\<rparr>" controllerBench]
  by (simp add: controllerBlocked_def millis_def)

text \<open>The claim as it was stated fails: a Controller whose deadline is 30000 and whose
  clock shows 100 receives a \<^verbatim>\<open>networkStatusReply\<close>, which it does not handle, and its
  deadline becomes 30100.\<close>

theorem OnDataRecv_unexpected_kind_moves_deadline:
  "thisIsTheController controllerBlocked
   \<and> nextTouchBaseTimeTarget controllerBlocked = 30000
   \<and> nextTouchBaseTimeTarget (OnDataRecv controllerBench
        \<lparr>transmission = networkStatusReply, status = blocked\<rparr> controllerBlocked) = 30100"
  by (simp add: controllerBlocked_def powerOn_def OnDataRecv_def Let_def Serial_print_def millis_def
      touchBaseTimePeriodWhenAllIsGood_def touchbaseOffsetsForSwitchbox_def)

text \<open>
  \<^bold>\<open>C10.\<close> When the Controller, with the network blocked and a Switchbox configured,
  receives \<^verbatim>\<open>requestControllerUnblockNetwork\<close>, the check of \<^verbatim>\<open>SwitchBoxSwitchStatus\<close>
  in \<^verbatim>\<open>BlockNetwork\<close> cannot deny the request: the handler sets the status to unblocked,
  \<^verbatim>\<open>BlockNetwork\<close> resets it to unknown and asks nobody, so the handler ends in one of
  two states, the grant or the denial on behalf of the Controller, followed by the
  reply to the Switchbox. The network is unblocked exactly when
  \<^verbatim>\<open>ControllerSwitchStatus\<close> is not blocked.
\<close>

theorem unblock_request_from_Switchbox:
  assumes "thisIsTheController s" and "NetworkStatus s = blocked" and "useASwitchbox e"
    and "transmission m = requestControllerUnblockNetwork"
  shows "OnDataRecv e m s =
           provideTheSwitchboxTheNetworkStatus delay_cb e
             (if ControllerSwitchStatus s \<noteq> blocked then
                s\<lparr>FlashRateOfTheLED := 0,
                  nextTouchBaseTimeTarget := millis s + 30000,
                  SwitchBoxSwitchStatus := unknown,
                  gpioOut := (gpioOut s)(controllerRelayConnectionPin := LOW),
                  NetworkStatus := unblocked,
                  serial := serial s @
                    [''the Switchbox has requested the Contoller unblock the network'' @ [CHR 0x0D, CHR 0x0A],
                     ''incoming unblock request'',
                     ''Network unblocked'' @ [CHR 0x0D, CHR 0x0A]]\<rparr>
              else
                s\<lparr>FlashRateOfTheLED := 0,
                  nextTouchBaseTimeTarget := millis s + 30000,
                  SwitchBoxSwitchStatus := unknown,
                  serial := serial s @
                    [''the Switchbox has requested the Contoller unblock the network'' @ [CHR 0x0D, CHR 0x0A],
                     ''incoming unblock request'',
                     ''a request from the Switchbox to unblock network was denied as the Controller is requesting the network be blocked'' @ [CHR 0x0D, CHR 0x0A]]\<rparr>)
         \<and> SwitchBoxSwitchStatus (OnDataRecv e m s) = unknown
         \<and> ((NetworkStatus (OnDataRecv e m s) = unblocked
               \<and> gpioOut (OnDataRecv e m s) controllerRelayConnectionPin = LOW)
              = (ControllerSwitchStatus s \<noteq> blocked))"
proof -
  have eq: "OnDataRecv e m s =
           provideTheSwitchboxTheNetworkStatus delay_cb e
             (if ControllerSwitchStatus s \<noteq> blocked then
                s\<lparr>FlashRateOfTheLED := 0,
                  nextTouchBaseTimeTarget := millis s + 30000,
                  SwitchBoxSwitchStatus := unknown,
                  gpioOut := (gpioOut s)(controllerRelayConnectionPin := LOW),
                  NetworkStatus := unblocked,
                  serial := serial s @
                    [''the Switchbox has requested the Contoller unblock the network'' @ [CHR 0x0D, CHR 0x0A],
                     ''incoming unblock request'',
                     ''Network unblocked'' @ [CHR 0x0D, CHR 0x0A]]\<rparr>
              else
                s\<lparr>FlashRateOfTheLED := 0,
                  nextTouchBaseTimeTarget := millis s + 30000,
                  SwitchBoxSwitchStatus := unknown,
                  serial := serial s @
                    [''the Switchbox has requested the Contoller unblock the network'' @ [CHR 0x0D, CHR 0x0A],
                     ''incoming unblock request'',
                     ''a request from the Switchbox to unblock network was denied as the Controller is requesting the network be blocked'' @ [CHR 0x0D, CHR 0x0A]]\<rparr>)"
    using assms
    by (simp add: OnDataRecv_def BlockNetwork_def Let_def Serial_println_def Serial_print_def
        digitalWrite_def millis_def touchBaseTimePeriodWhenAllIsGood_def)
  have "SwitchBoxSwitchStatus (OnDataRecv e m s) = unknown"
    by (simp add: eq provideTheSwitchboxTheNetworkStatus_cb_frame)
  moreover have "(NetworkStatus (OnDataRecv e m s) = unblocked
               \<and> gpioOut (OnDataRecv e m s) controllerRelayConnectionPin = LOW)
              = (ControllerSwitchStatus s \<noteq> blocked)"
    using assms(2) by (simp add: eq provideTheSwitchboxTheNetworkStatus_cb_frame)
  ultimately show ?thesis
    using eq by (intro conjI)
qed

theorem unblock_request_from_Switchbox_witness:
  "thisIsTheController controllerBlocked \<and> NetworkStatus controllerBlocked = blocked
   \<and> useASwitchbox controllerBench
   \<and> transmission \<lparr>transmission = requestControllerUnblockNetwork, status = unknown\<rparr>
       = requestControllerUnblockNetwork
   \<and> SwitchBoxSwitchStatus (OnDataRecv controllerBench
        \<lparr>transmission = requestControllerUnblockNetwork, status = unknown\<rparr> controllerBlocked) = unknown
   \<and> ((NetworkStatus (OnDataRecv controllerBench
          \<lparr>transmission = requestControllerUnblockNetwork, status = unknown\<rparr> controllerBlocked) = unblocked
        \<and> gpioOut (OnDataRecv controllerBench
          \<lparr>transmission = requestControllerUnblockNetwork, status = unknown\<rparr> controllerBlocked)
            controllerRelayConnectionPin = LOW)
       = (ControllerSwitchStatus controllerBlocked \<noteq> blocked))"
proof -
  have h1: "thisIsTheController controllerBlocked" and h2: "NetworkStatus controllerBlocked = blocked"
    by (simp_all add: controllerBlocked_def)
  have h3: "useASwitchbox controllerBench"
    by (simp add: controllerBench_def)
  have h4: "transmission \<lparr>transmission = requestControllerUnblockNetwork, status = unknown\<rparr>
       = requestControllerUnblockNetwork"
    by simp
  show ?thesis
    using h1 h2 h3 h4 unblock_request_from_Switchbox [OF h1 h2 h3 h4] by blast
qed

text \<open>
  \<^bold>\<open>C2.\<close> Whatever the pins read and whatever the radio delivers meanwhile,
  \<^verbatim>\<open>checkEmergencyStopButton\<close> sets the switch status of the node itself to blocked if
  both debounced tests pass (the normally closed contact reads open on two reads
  10 ms apart, then the normally opened contact reads closed on two reads 10 ms
  apart) and to unblocked if not, on the main task and in a callback alike. So a
  normally closed contact that reads closed again at the second read, or a normally
  opened contact that reads open again at its second read, gives unblocked.
\<close>

theorem checkEmergencyStopButton_debounce:
  "ownSwitchStatus (checkEmergencyStopButton (delay e) e s) =
     (if buttonEngaged e (ownClosedPin s) (ownOpenedPin s) (now s) then blocked else unblocked)
   \<and> ownSwitchStatus (checkEmergencyStopButton delay_cb e s) =
     (if buttonEngaged e (ownClosedPin s) (ownOpenedPin s) (now s) then blocked else unblocked)
   \<and> (pinLevel e (now s + 10) (ownClosedPin s) = 0 \<longrightarrow>
        ownSwitchStatus (checkEmergencyStopButton (delay e) e s) = unblocked)
   \<and> (pinLevel e (now s + 20) (ownOpenedPin s) \<noteq> 0 \<longrightarrow>
        ownSwitchStatus (checkEmergencyStopButton (delay e) e s) = unblocked)"
proof -
  have main: "ownSwitchStatus (checkEmergencyStopButton (delay e) e s) =
     (if buttonEngaged e (ownClosedPin s) (ownOpenedPin s) (now s) then blocked else unblocked)"
    by (rule checkEmergencyStopButton_result) (simp_all add: now_delay delay_role)
  have cb: "ownSwitchStatus (checkEmergencyStopButton delay_cb e s) =
     (if buttonEngaged e (ownClosedPin s) (ownOpenedPin s) (now s) then blocked else unblocked)"
    by (rule checkEmergencyStopButton_result) (simp_all add: delay_cb_def)
  show ?thesis
    unfolding main cb by (simp add: buttonEngaged_def)
qed

text \<open>A normally closed contact of the Controller that reads open from 100 ms to
  105 ms and closed afterwards leaves the status unblocked; a button held down gives
  blocked.\<close>

theorem checkEmergencyStopButton_debounce_witness:
  "pinLevel glitchBench (now controllerBlocked) (ownClosedPin controllerBlocked) \<noteq> 0
   \<and> pinLevel glitchBench (now controllerBlocked + 10) (ownClosedPin controllerBlocked) = 0
   \<and> pinLevel glitchBench (now controllerBlocked + 20) (ownOpenedPin controllerBlocked) \<noteq> 0
   \<and> ownSwitchStatus (checkEmergencyStopButton (delay glitchBench) glitchBench controllerBlocked)
       = unblocked
   \<and> ownSwitchStatus (checkEmergencyStopButton (delay pressedBench) pressedBench controllerBlocked)
       = blocked"
proof -
  have h: "pinLevel glitchBench (now controllerBlocked) (ownClosedPin controllerBlocked) \<noteq> 0"
    "pinLevel glitchBench (now controllerBlocked + 10) (ownClosedPin controllerBlocked) = 0"
    "pinLevel glitchBench (now controllerBlocked + 20) (ownOpenedPin controllerBlocked) \<noteq> 0"
    by (simp_all add: glitchBench_def controllerBench_def controllerBlocked_def ownClosedPin_def
        ownOpenedPin_def controllerNormallyClosedConnectionPin_def
        controllerNormallyOpenedConnectionPin_def)
  have p: "buttonEngaged pressedBench (ownClosedPin controllerBlocked) (ownOpenedPin controllerBlocked)
             (now controllerBlocked)"
    by (simp add: buttonEngaged_def pressedBench_def controllerBench_def controllerBlocked_def
        ownClosedPin_def ownOpenedPin_def controllerNormallyClosedConnectionPin_def
        controllerNormallyOpenedConnectionPin_def)
  have u: "ownSwitchStatus (checkEmergencyStopButton (delay glitchBench) glitchBench controllerBlocked)
       = unblocked"
    using checkEmergencyStopButton_debounce [of glitchBench controllerBlocked] h(2) by blast
  have "ownSwitchStatus (checkEmergencyStopButton (delay pressedBench) pressedBench controllerBlocked)
       = (if buttonEngaged pressedBench (ownClosedPin controllerBlocked)
               (ownOpenedPin controllerBlocked) (now controllerBlocked)
          then blocked else unblocked)"
    using checkEmergencyStopButton_debounce [of pressedBench controllerBlocked] by blast
  with p have bl:
    "ownSwitchStatus (checkEmergencyStopButton (delay pressedBench) pressedBench controllerBlocked)
       = blocked"
    by simp
  show ?thesis
    using h u bl by blast
qed

text \<open>
  \<^bold>\<open>C6.\<close> \<^verbatim>\<open>setTheRoleOfThisDeviceBasedOnItsWiring\<close> returns true exactly when one of the
  four contact inputs is confirmed closed and that input is not one of the Switchbox
  in a build without a Switchbox. When it returns true the node is the Controller if
  the closed input is one of the Controller and the Switchbox if it is one of the
  Switchbox, and never both. With any other number of closed inputs it returns false,
  sets the flash rate of a wiring problem (1000) and sets neither role; a closed
  input of the Switchbox with \<^verbatim>\<open>useASwitchbox\<close> false gives false and the same flash
  rate.
\<close>

theorem role_negotiation:
  "fst (setTheRoleOfThisDeviceBasedOnItsWiring (delay e) e s) =
     (closedCount e (now s) = 1 \<and> (controllerContactClosed e (now s) \<or> useASwitchbox e))
   \<and> (fst (setTheRoleOfThisDeviceBasedOnItsWiring (delay e) e s) \<longrightarrow>
        thisIsTheController (snd (setTheRoleOfThisDeviceBasedOnItsWiring (delay e) e s))
          = controllerContactClosed e (now s)
        \<and> thisIsTheSwitchbox (snd (setTheRoleOfThisDeviceBasedOnItsWiring (delay e) e s))
          = switchboxContactClosed e (now s)
        \<and> thisIsTheController (snd (setTheRoleOfThisDeviceBasedOnItsWiring (delay e) e s))
          \<noteq> thisIsTheSwitchbox (snd (setTheRoleOfThisDeviceBasedOnItsWiring (delay e) e s)))
   \<and> (closedCount e (now s) \<noteq> 1 \<longrightarrow>
        \<not> fst (setTheRoleOfThisDeviceBasedOnItsWiring (delay e) e s)
        \<and> FlashRateOfTheLED (snd (setTheRoleOfThisDeviceBasedOnItsWiring (delay e) e s)) = 1000
        \<and> \<not> thisIsTheController (snd (setTheRoleOfThisDeviceBasedOnItsWiring (delay e) e s))
        \<and> \<not> thisIsTheSwitchbox (snd (setTheRoleOfThisDeviceBasedOnItsWiring (delay e) e s)))
   \<and> (closedCount e (now s) = 1 \<and> switchboxContactClosed e (now s) \<and> \<not> useASwitchbox e \<longrightarrow>
        \<not> fst (setTheRoleOfThisDeviceBasedOnItsWiring (delay e) e s)
        \<and> FlashRateOfTheLED (snd (setTheRoleOfThisDeviceBasedOnItsWiring (delay e) e s)) = 1000)"
proof -
  let ?cs = "closedContacts e (now s)"
  note r = setTheRole_result [of "delay e" e s, OF now_delay delay_role]
  have excl: "length (filter id ?cs) = 1 \<Longrightarrow> (?cs ! 0 \<or> ?cs ! 1) \<noteq> (?cs ! 2 \<or> ?cs ! 3)"
    by (auto simp add: closedContacts_def Let_def split: if_splits)
  have one: "?cs ! 0 \<or> ?cs ! 1 \<or> ?cs ! 2 \<or> ?cs ! 3" if "length (filter id ?cs) = 1"
    using that by (auto simp add: closedContacts_def Let_def split: if_splits)
  show ?thesis
    unfolding closedCount_def controllerContactClosed_def switchboxContactClosed_def
    using r excl one by blast
qed

theorem role_negotiation_witness:
  "closedCount controllerBench (now (powerOn controllerBench 0)) = 1
   \<and> fst (setTheRoleOfThisDeviceBasedOnItsWiring (delay controllerBench) controllerBench
        (powerOn controllerBench 0))
   \<and> thisIsTheController (snd (setTheRoleOfThisDeviceBasedOnItsWiring (delay controllerBench)
        controllerBench (powerOn controllerBench 0)))
   \<and> closedCount unwiredBench (now (powerOn unwiredBench 0)) \<noteq> 1
   \<and> \<not> fst (setTheRoleOfThisDeviceBasedOnItsWiring (delay unwiredBench) unwiredBench
        (powerOn unwiredBench 0))
   \<and> closedCount switchboxUnsupportedBench (now (powerOn switchboxUnsupportedBench 0)) = 1
   \<and> switchboxContactClosed switchboxUnsupportedBench (now (powerOn switchboxUnsupportedBench 0))
   \<and> \<not> useASwitchbox switchboxUnsupportedBench
   \<and> \<not> fst (setTheRoleOfThisDeviceBasedOnItsWiring (delay switchboxUnsupportedBench)
        switchboxUnsupportedBench (powerOn switchboxUnsupportedBench 0))"
proof -
  have a: "closedCount controllerBench (now (powerOn controllerBench 0)) = 1"
    "controllerContactClosed controllerBench (now (powerOn controllerBench 0))"
    by (simp_all add: closedCount_def controllerContactClosed_def closedContacts_def Let_def
        confirmedClosed_def afterTest_def controllerBench_def powerOn_def
        controllerNormallyClosedConnectionPin_def controllerNormallyOpenedConnectionPin_def
        swichboxNormallyClosedConnectionPin_def swtichboxNormallyOpenedConnectionPin_def)
  have b: "closedCount unwiredBench (now (powerOn unwiredBench 0)) \<noteq> 1"
    by (simp add: closedCount_def closedContacts_def Let_def
        confirmedClosed_def afterTest_def controllerBench_def unwiredBench_def powerOn_def)
  have c: "closedCount switchboxUnsupportedBench (now (powerOn switchboxUnsupportedBench 0)) = 1"
    "switchboxContactClosed switchboxUnsupportedBench (now (powerOn switchboxUnsupportedBench 0))"
    "\<not> useASwitchbox switchboxUnsupportedBench"
    by (simp_all add: closedCount_def switchboxContactClosed_def closedContacts_def Let_def
        confirmedClosed_def afterTest_def controllerBench_def switchboxUnsupportedBench_def
        powerOn_def
        controllerNormallyClosedConnectionPin_def controllerNormallyOpenedConnectionPin_def
        swichboxNormallyClosedConnectionPin_def swtichboxNormallyOpenedConnectionPin_def)
  show ?thesis
    using a b c role_negotiation [of controllerBench "powerOn controllerBench 0"]
      role_negotiation [of unwiredBench "powerOn unwiredBench 0"]
      role_negotiation [of switchboxUnsupportedBench "powerOn switchboxUnsupportedBench 0"]
    by blast
qed



text \<open>
  \<^bold>\<open>C7\<close> (as amended). When role negotiation fails at boot (the number of contact
  inputs confirmed closed is not one, or the closed input is one of the Switchbox in
  a build without a Switchbox), \<^verbatim>\<open>setup()\<close> never returns: the node is in the loop
  that only flashes the LED, at the rate of a wiring problem. In every state of that
  loop no packet has been handed to the radio, no callback is registered, and the
  relay pin is LOW with \<^verbatim>\<open>NetworkStatus\<close> unblocked: the relay stays de-energised,
  which is the position in which the network is not blocked.
\<close>

theorem wiring_fault_is_terminal:
  "closedCount e t0 \<noteq> 1 \<or> (switchboxContactClosed e t0 \<and> \<not> useASwitchbox e) \<longrightarrow>
     halted (setup_sketch e (powerOn e t0))
     \<and> sent (flashForever e ds (bootState (setup_sketch e (powerOn e t0)))) = []
     \<and> \<not> sendCb (flashForever e ds (bootState (setup_sketch e (powerOn e t0))))
     \<and> \<not> recvCb (flashForever e ds (bootState (setup_sketch e (powerOn e t0))))
     \<and> FlashRateOfTheLED (flashForever e ds (bootState (setup_sketch e (powerOn e t0)))) = 1000
     \<and> gpioOut (flashForever e ds (bootState (setup_sketch e (powerOn e t0))))
           controllerRelayConnectionPin = LOW
     \<and> NetworkStatus (flashForever e ds (bootState (setup_sketch e (powerOn e t0)))) = unblocked"
proof
  assume a: "closedCount e t0 \<noteq> 1 \<or> (switchboxContactClosed e t0 \<and> \<not> useASwitchbox e)"
  have excl: "closedCount e t0 = 1 \<Longrightarrow> switchboxContactClosed e t0 \<Longrightarrow>
      \<not> controllerContactClosed e t0"
    by (auto simp add: closedCount_def controllerContactClosed_def switchboxContactClosed_def
        closedContacts_def Let_def split: if_splits)
  from a excl
  have n: "\<not> (closedCount e t0 = 1 \<and> (controllerContactClosed e t0 \<or> useASwitchbox e))"
    by blast
  note b = wiring_fault_boot [OF n]
  show "halted (setup_sketch e (powerOn e t0))
     \<and> sent (flashForever e ds (bootState (setup_sketch e (powerOn e t0)))) = []
     \<and> \<not> sendCb (flashForever e ds (bootState (setup_sketch e (powerOn e t0))))
     \<and> \<not> recvCb (flashForever e ds (bootState (setup_sketch e (powerOn e t0))))
     \<and> FlashRateOfTheLED (flashForever e ds (bootState (setup_sketch e (powerOn e t0)))) = 1000
     \<and> gpioOut (flashForever e ds (bootState (setup_sketch e (powerOn e t0))))
           controllerRelayConnectionPin = LOW
     \<and> NetworkStatus (flashForever e ds (bootState (setup_sketch e (powerOn e t0)))) = unblocked"
    using flashForever_unregistered [OF b(2) b(3), of e ds] b by simp
qed

theorem wiring_fault_is_terminal_witness:
  "closedCount unwiredBench 0 \<noteq> 1
   \<and> halted (setup_sketch unwiredBench (powerOn unwiredBench 0))
   \<and> sent (flashForever unwiredBench [400, 1200]
        (bootState (setup_sketch unwiredBench (powerOn unwiredBench 0)))) = []
   \<and> NetworkStatus (flashForever unwiredBench [400, 1200]
        (bootState (setup_sketch unwiredBench (powerOn unwiredBench 0)))) = unblocked"
proof -
  have h: "closedCount unwiredBench 0 \<noteq> 1"
    by (simp add: closedCount_def closedContacts_def Let_def confirmedClosed_def afterTest_def
        unwiredBench_def controllerBench_def)
  show ?thesis
    using h wiring_fault_is_terminal [of unwiredBench 0 "[400, 1200]"] by blast
qed

text \<open>The claim as it was stated fails: with no contact closed the node is stuck in
  the loop, and there the relay is LOW and the network is unblocked, not blocked.\<close>

theorem wiring_fault_leaves_network_unblocked:
  "closedCount unwiredBench 0 = 0
   \<and> halted (setup_sketch unwiredBench (powerOn unwiredBench 0))
   \<and> gpioOut (bootState (setup_sketch unwiredBench (powerOn unwiredBench 0)))
        controllerRelayConnectionPin = LOW
   \<and> NetworkStatus (bootState (setup_sketch unwiredBench (powerOn unwiredBench 0))) = unblocked
   \<and> NetworkStatus (bootState (setup_sketch unwiredBench (powerOn unwiredBench 0))) \<noteq> blocked"
proof -
  have h: "closedCount unwiredBench 0 = 0"
    by (simp add: closedCount_def closedContacts_def Let_def confirmedClosed_def afterTest_def
        unwiredBench_def controllerBench_def)
  then have n: "\<not> (closedCount unwiredBench 0 = 1
      \<and> (controllerContactClosed unwiredBench 0 \<or> useASwitchbox unwiredBench))"
    by simp
  show ?thesis
    using h wiring_fault_boot(1,5,7) [OF n] by simp
qed

text \<open>
  \<^bold>\<open>C1\<close> (as amended). A call of \<^verbatim>\<open>BlockNetwork\<close> on the Controller that requests to
  unblock a blocked network, in a build with a Switchbox, is decided at the moment
  of the check. The call itself grants the request, that is, drives the relay pin
  LOW, sets \<^verbatim>\<open>NetworkStatus\<close> to unblocked and logs \<^verbatim>\<open>Network unblocked\<close>, exactly when
  neither \<^verbatim>\<open>ControllerSwitchStatus\<close> nor \<^verbatim>\<open>SwitchBoxSwitchStatus\<close> is blocked there
  (unknown counts as not blocked); when one of them is blocked the call only logs
  the denial, and the output pins and \<^verbatim>\<open>NetworkStatus\<close> are those of the moment of the
  check. A request that came from the Switchbox asks nobody, whatever \<^verbatim>\<open>delay\<close> it is
  given: at the check \<^verbatim>\<open>SwitchBoxSwitchStatus\<close> is unknown and \<^verbatim>\<open>ControllerSwitchStatus\<close>
  is the one before the call.

  A request that came from the Controller waits up to 2010 ms for the Switchbox,
  and the callbacks run during the wait. When the radio delivers no request of the
  Switchbox to unblock in those 2010 ms, or the request came from the Switchbox,
  \<^verbatim>\<open>ControllerSwitchStatus\<close> at the check is the one before the call, the network is
  unblocked after the call exactly when neither status was blocked at the check,
  and a denied call leaves the output pins as they were before the call and the
  network blocked.
\<close>

theorem unblock_granted_iff:
  assumes "thisIsTheController s" and "NetworkStatus s = blocked" and "useASwitchbox e"
  shows "BlockNetwork (delay e) e False rc s =
           (if ControllerSwitchStatus (stateAtTheUnblockCheck (delay e) e rc s) \<noteq> blocked
               \<and> SwitchBoxSwitchStatus (stateAtTheUnblockCheck (delay e) e rc s) \<noteq> blocked
            then Serial_println ''Network unblocked''
                   ((digitalWrite controllerRelayConnectionPin LOW
                       (stateAtTheUnblockCheck (delay e) e rc s))\<lparr>NetworkStatus := unblocked\<rparr>)
            else Serial_println
                   (if ControllerSwitchStatus (stateAtTheUnblockCheck (delay e) e rc s) = blocked
                    then ''a request from the Switchbox to unblock network was denied as the Controller is requesting the network be blocked''
                    else ''a request from the Controller to unblock network was denied as the Switchbox is requesting the network be blocked'')
                   (stateAtTheUnblockCheck (delay e) e rc s))
       \<and> (last (serial (BlockNetwork (delay e) e False rc s))
             = ''Network unblocked'' @ [CHR 0x0D, CHR 0x0A])
          = (ControllerSwitchStatus (stateAtTheUnblockCheck (delay e) e rc s) \<noteq> blocked
             \<and> SwitchBoxSwitchStatus (stateAtTheUnblockCheck (delay e) e rc s) \<noteq> blocked)
       \<and> (ControllerSwitchStatus (stateAtTheUnblockCheck (delay e) e rc s) \<noteq> blocked
            \<and> SwitchBoxSwitchStatus (stateAtTheUnblockCheck (delay e) e rc s) \<noteq> blocked \<longrightarrow>
           gpioOut (BlockNetwork (delay e) e False rc s) controllerRelayConnectionPin = LOW
           \<and> NetworkStatus (BlockNetwork (delay e) e False rc s) = unblocked)
       \<and> (ControllerSwitchStatus (stateAtTheUnblockCheck (delay e) e rc s) = blocked
            \<or> SwitchBoxSwitchStatus (stateAtTheUnblockCheck (delay e) e rc s) = blocked \<longrightarrow>
           gpioOut (BlockNetwork (delay e) e False rc s)
             = gpioOut (stateAtTheUnblockCheck (delay e) e rc s)
           \<and> NetworkStatus (BlockNetwork (delay e) e False rc s)
             = NetworkStatus (stateAtTheUnblockCheck (delay e) e rc s))
       \<and> BlockNetwork dl e False False s = BlockNetwork (delay e) e False False s
       \<and> (\<not> rc \<longrightarrow>
            SwitchBoxSwitchStatus (stateAtTheUnblockCheck (delay e) e rc s) = unknown
            \<and> ControllerSwitchStatus (stateAtTheUnblockCheck (delay e) e rc s)
                = ControllerSwitchStatus s)
       \<and> ((rc \<longrightarrow> noUnblockRequestsDuring e (now s) (now s + 2010)) \<longrightarrow>
            ControllerSwitchStatus (stateAtTheUnblockCheck (delay e) e rc s)
              = ControllerSwitchStatus s
            \<and> ((gpioOut (BlockNetwork (delay e) e False rc s) controllerRelayConnectionPin = LOW
                 \<and> NetworkStatus (BlockNetwork (delay e) e False rc s) = unblocked)
                = (ControllerSwitchStatus (stateAtTheUnblockCheck (delay e) e rc s) \<noteq> blocked
                   \<and> SwitchBoxSwitchStatus (stateAtTheUnblockCheck (delay e) e rc s) \<noteq> blocked))
            \<and> (ControllerSwitchStatus (stateAtTheUnblockCheck (delay e) e rc s) = blocked
                 \<or> SwitchBoxSwitchStatus (stateAtTheUnblockCheck (delay e) e rc s) = blocked \<longrightarrow>
                gpioOut (BlockNetwork (delay e) e False rc s) = gpioOut s
                \<and> NetworkStatus (BlockNetwork (delay e) e False rc s) = blocked))"
proof -
  let ?sc = "stateAtTheUnblockCheck (delay e) e rc s"
  note eq = BlockNetwork_unblock [OF assms, of "delay e" rc]
  have same: "BlockNetwork dl e False False s = BlockNetwork (delay e) e False False s"
    by (simp add: BlockNetwork_unblock [OF assms] stateAtTheUnblockCheck_def)
  have quiet: "gpioOut ?sc = gpioOut s \<and> NetworkStatus ?sc = blocked
      \<and> ControllerSwitchStatus ?sc = ControllerSwitchStatus s"
    if "rc \<longrightarrow> noUnblockRequestsDuring e (now s) (now s + 2010)"
    using stateAtTheUnblockCheck_held [OF that, of "gpioOut s" "ControllerSwitchStatus s"] assms
    by (simp add: blockedController_def)
  show ?thesis
  proof (intro conjI impI)
    show "BlockNetwork (delay e) e False rc s =
           (if ControllerSwitchStatus ?sc \<noteq> blocked \<and> SwitchBoxSwitchStatus ?sc \<noteq> blocked
            then Serial_println ''Network unblocked''
                   ((digitalWrite controllerRelayConnectionPin LOW ?sc)\<lparr>NetworkStatus := unblocked\<rparr>)
            else Serial_println
                   (if ControllerSwitchStatus ?sc = blocked
                    then ''a request from the Switchbox to unblock network was denied as the Controller is requesting the network be blocked''
                    else ''a request from the Controller to unblock network was denied as the Switchbox is requesting the network be blocked'')
                   ?sc)"
      unfolding eq by simp
    show "(last (serial (BlockNetwork (delay e) e False rc s))
             = ''Network unblocked'' @ [CHR 0x0D, CHR 0x0A])
          = (ControllerSwitchStatus ?sc \<noteq> blocked \<and> SwitchBoxSwitchStatus ?sc \<noteq> blocked)"
      unfolding eq by (simp add: Serial_println_def)
    show "BlockNetwork dl e False False s = BlockNetwork (delay e) e False False s"
      by (rule same)
  next
    assume g: "ControllerSwitchStatus ?sc \<noteq> blocked \<and> SwitchBoxSwitchStatus ?sc \<noteq> blocked"
    show "gpioOut (BlockNetwork (delay e) e False rc s) controllerRelayConnectionPin = LOW"
      "NetworkStatus (BlockNetwork (delay e) e False rc s) = unblocked"
      unfolding eq using g by (simp_all add: Serial_fields digitalWrite_def)
  next
    assume d: "ControllerSwitchStatus ?sc = blocked \<or> SwitchBoxSwitchStatus ?sc = blocked"
    show "gpioOut (BlockNetwork (delay e) e False rc s) = gpioOut ?sc"
      "NetworkStatus (BlockNetwork (delay e) e False rc s) = NetworkStatus ?sc"
      unfolding eq using d by (auto simp add: Serial_fields)
  next
    assume "\<not> rc"
    then show "SwitchBoxSwitchStatus ?sc = unknown"
      "ControllerSwitchStatus ?sc = ControllerSwitchStatus s"
      by (simp_all add: stateAtTheUnblockCheck_def Let_def Serial_fields)
  next
    assume q: "rc \<longrightarrow> noUnblockRequestsDuring e (now s) (now s + 2010)"
    show "ControllerSwitchStatus ?sc = ControllerSwitchStatus s"
      using quiet [OF q] by simp
    show "(gpioOut (BlockNetwork (delay e) e False rc s) controllerRelayConnectionPin = LOW
               \<and> NetworkStatus (BlockNetwork (delay e) e False rc s) = unblocked)
              = (ControllerSwitchStatus ?sc \<noteq> blocked \<and> SwitchBoxSwitchStatus ?sc \<noteq> blocked)"
      unfolding eq using quiet [OF q] by (simp add: Serial_fields digitalWrite_def)
  next
    assume q: "rc \<longrightarrow> noUnblockRequestsDuring e (now s) (now s + 2010)"
      and d: "ControllerSwitchStatus ?sc = blocked \<or> SwitchBoxSwitchStatus ?sc = blocked"
    show "gpioOut (BlockNetwork (delay e) e False rc s) = gpioOut s"
      unfolding eq using quiet [OF q] d by (auto simp add: Serial_fields)
    show "NetworkStatus (BlockNetwork (delay e) e False rc s) = blocked"
      unfolding eq using quiet [OF q] d by (auto simp add: Serial_fields)
  qed
qed

text \<open>Three calls at 100 ms. The Controller, its own button engaged, asks to unblock
  and nothing arrives: denied. The Switchbox asks a Controller whose button is
  released: granted. That Controller asks and the Switchbox replies blocked at
  120 ms: denied, the network stays blocked.\<close>

theorem unblock_granted_iff_witness:
  "thisIsTheController controllerBlocked \<and> NetworkStatus controllerBlocked = blocked
   \<and> useASwitchbox controllerBench
   \<and> ControllerSwitchStatus (stateAtTheUnblockCheck (delay controllerBench) controllerBench True
         controllerBlocked) = blocked
   \<and> gpioOut (BlockNetwork (delay controllerBench) controllerBench False True controllerBlocked)
       = gpioOut controllerBlocked
   \<and> NetworkStatus (BlockNetwork (delay controllerBench) controllerBench False True controllerBlocked)
       = blocked
   \<and> thisIsTheController controllerReleased \<and> NetworkStatus controllerReleased = blocked
   \<and> ControllerSwitchStatus (stateAtTheUnblockCheck (delay controllerBench) controllerBench False
         controllerReleased) \<noteq> blocked
   \<and> SwitchBoxSwitchStatus (stateAtTheUnblockCheck (delay controllerBench) controllerBench False
         controllerReleased) \<noteq> blocked
   \<and> gpioOut (BlockNetwork (delay controllerBench) controllerBench False False controllerReleased)
         controllerRelayConnectionPin = LOW
   \<and> NetworkStatus (BlockNetwork (delay controllerBench) controllerBench False False controllerReleased)
       = unblocked
   \<and> useASwitchbox switchboxEngagedBench
   \<and> ControllerSwitchStatus (stateAtTheUnblockCheck (delay switchboxEngagedBench)
         switchboxEngagedBench True controllerReleased) \<noteq> blocked
   \<and> SwitchBoxSwitchStatus (stateAtTheUnblockCheck (delay switchboxEngagedBench)
         switchboxEngagedBench True controllerReleased) = blocked
   \<and> gpioOut (BlockNetwork (delay switchboxEngagedBench) switchboxEngagedBench False True
         controllerReleased) = gpioOut controllerReleased
   \<and> NetworkStatus (BlockNetwork (delay switchboxEngagedBench) switchboxEngagedBench False True
         controllerReleased) = blocked"
proof -
  have u': "useASwitchbox switchboxEngagedBench"
    by (simp add: switchboxEngagedBench_def controllerBench_def)
  have q': "noUnblockRequestsDuring switchboxEngagedBench (now controllerReleased)
      (now controllerReleased + 2010)"
    by (simp add: noUnblockRequestsDuring_def switchboxEngagedBench_def)
  have "blockedController (gpioOut controllerReleased) unblocked controllerReleased"
    by (simp add: blockedController_def controllerReleased_def controllerBlocked_def)
  then have "blockedController (gpioOut controllerReleased) unblocked
      (stateAtTheUnblockCheck (delay switchboxEngagedBench) switchboxEngagedBench True
         controllerReleased)"
    using q' by (intro stateAtTheUnblockCheck_held) simp_all
  then have c': "ControllerSwitchStatus (stateAtTheUnblockCheck (delay switchboxEngagedBench)
         switchboxEngagedBench True controllerReleased) \<noteq> blocked"
    by (simp add: blockedController_def)
  have b': "SwitchBoxSwitchStatus (stateAtTheUnblockCheck (delay switchboxEngagedBench)
         switchboxEngagedBench True controllerReleased) = blocked"
    unfolding stateAtTheUnblockCheck_def Let_def if_True
    by (rule requestTheSwitchboxStatus_reply)
      (simp_all add: Serial_fields controllerReleased_def controllerBlocked_def powerOn_def
        switchboxEngagedBench_def controllerBench_def)
  have h: "thisIsTheController controllerBlocked" "NetworkStatus controllerBlocked = blocked"
    "thisIsTheController controllerReleased" "NetworkStatus controllerReleased = blocked"
    by (simp_all add: controllerBlocked_def controllerReleased_def)
  have u: "useASwitchbox controllerBench"
    by (simp add: controllerBench_def)
  have q: "noUnblockRequestsDuring controllerBench (now controllerBlocked)
      (now controllerBlocked + 2010)"
    by (simp add: noUnblockRequestsDuring_def controllerBench_def)
  have "blockedController (gpioOut controllerBlocked) blocked controllerBlocked"
    by (simp add: blockedController_def controllerBlocked_def)
  then have "blockedController (gpioOut controllerBlocked) blocked
      (stateAtTheUnblockCheck (delay controllerBench) controllerBench True controllerBlocked)"
    using q by (intro stateAtTheUnblockCheck_held) simp_all
  then have c: "ControllerSwitchStatus (stateAtTheUnblockCheck (delay controllerBench)
      controllerBench True controllerBlocked) = blocked"
    by (simp add: blockedController_def)
  have r: "ControllerSwitchStatus (stateAtTheUnblockCheck (delay controllerBench) controllerBench
         False controllerReleased) \<noteq> blocked"
    "SwitchBoxSwitchStatus (stateAtTheUnblockCheck (delay controllerBench) controllerBench False
         controllerReleased) \<noteq> blocked"
    by (simp_all add: stateAtTheUnblockCheck_def Let_def Serial_fields controllerReleased_def)
  show ?thesis
    using h u q c r u' q' c' b'
      unblock_granted_iff [OF h(1) h(2) u, of True]
      unblock_granted_iff [OF h(3) h(4) u, of False]
      unblock_granted_iff [OF h(3) h(4) u', of True]
    by blast
qed

text \<open>The claim as it was stated fails. The Controller, its button released and the
  network blocked, asks to unblock at 100 ms. At 115 ms, while the call waits for
  the reply, the radio delivers a request of the Switchbox to unblock: the handler
  grants it, and drives the relay LOW. At 120 ms the reply of the Switchbox arrives,
  blocked. At the check \<^verbatim>\<open>SwitchBoxSwitchStatus\<close> is blocked and the call logs the
  denial; yet the relay, HIGH before the call, is LOW after it, and \<^verbatim>\<open>NetworkStatus\<close>
  is unblocked.\<close>

theorem unblock_denied_after_nested_grant:
  "thisIsTheController controllerReleased \<and> NetworkStatus controllerReleased = blocked
   \<and> useASwitchbox raceBench
   \<and> gpioOut controllerReleased controllerRelayConnectionPin = HIGH
   \<and> SwitchBoxSwitchStatus
        (stateAtTheUnblockCheck (delay raceBench) raceBench True controllerReleased) = blocked
   \<and> last (serial (BlockNetwork (delay raceBench) raceBench False True controllerReleased)) =
        ''a request from the Controller to unblock network was denied as the Switchbox is requesting the network be blocked''
          @ [CHR 0x0D, CHR 0x0A]
   \<and> gpioOut (BlockNetwork (delay raceBench) raceBench False True controllerReleased)
        controllerRelayConnectionPin = LOW
   \<and> gpioOut (BlockNetwork (delay raceBench) raceBench False True controllerReleased)
        controllerRelayConnectionPin
       \<noteq> gpioOut controllerReleased controllerRelayConnectionPin
   \<and> NetworkStatus (BlockNetwork (delay raceBench) raceBench False True controllerReleased)
       = unblocked"
proof -
  have h: "thisIsTheController controllerReleased" "NetworkStatus controllerReleased = blocked"
    "useASwitchbox raceBench"
    by (simp_all add: controllerReleased_def controllerBlocked_def raceBench_def controllerBench_def)
  show ?thesis
    using h BlockNetwork_race(1,2,4,5)
    by (simp add: BlockNetwork_race(3) HIGH_def LOW_def)
qed

text \<open>
  \<^bold>\<open>C5\<close> (as amended). When a request to unblock a blocked network is denied because
  \<^verbatim>\<open>ControllerSwitchStatus\<close> or \<^verbatim>\<open>SwitchBoxSwitchStatus\<close> is blocked at the check,
  \<^verbatim>\<open>BlockNetwork\<close> does nothing after the check but log which side denied it (the
  Controller if its status is blocked, the Switchbox otherwise): the output pins and
  the three status variables are those of the moment of the check. When the request
  came from the Switchbox, or the radio delivers no request of the Switchbox to
  unblock in the 2010 ms during which a request of the Controller waits for the
  reply, the output pins, \<^verbatim>\<open>NetworkStatus\<close> and \<^verbatim>\<open>ControllerSwitchStatus\<close> are also those
  before the call. \<^verbatim>\<open>SwitchBoxSwitchStatus\<close> is not kept: the call resets it to unknown
  before the check, and that is its value after a denied request of the Switchbox.
\<close>

theorem unblock_denied:
  assumes "thisIsTheController s" and "NetworkStatus s = blocked" and "useASwitchbox e"
    and "ControllerSwitchStatus (stateAtTheUnblockCheck (delay e) e rc s) = blocked
         \<or> SwitchBoxSwitchStatus (stateAtTheUnblockCheck (delay e) e rc s) = blocked"
  shows "BlockNetwork (delay e) e False rc s =
           Serial_println
             (if ControllerSwitchStatus (stateAtTheUnblockCheck (delay e) e rc s) = blocked
              then ''a request from the Switchbox to unblock network was denied as the Controller is requesting the network be blocked''
              else ''a request from the Controller to unblock network was denied as the Switchbox is requesting the network be blocked'')
             (stateAtTheUnblockCheck (delay e) e rc s)
       \<and> gpioOut (BlockNetwork (delay e) e False rc s)
           = gpioOut (stateAtTheUnblockCheck (delay e) e rc s)
       \<and> NetworkStatus (BlockNetwork (delay e) e False rc s)
           = NetworkStatus (stateAtTheUnblockCheck (delay e) e rc s)
       \<and> ControllerSwitchStatus (BlockNetwork (delay e) e False rc s)
           = ControllerSwitchStatus (stateAtTheUnblockCheck (delay e) e rc s)
       \<and> SwitchBoxSwitchStatus (BlockNetwork (delay e) e False rc s)
           = SwitchBoxSwitchStatus (stateAtTheUnblockCheck (delay e) e rc s)
       \<and> ((rc \<longrightarrow> noUnblockRequestsDuring e (now s) (now s + 2010)) \<longrightarrow>
            gpioOut (BlockNetwork (delay e) e False rc s) = gpioOut s
            \<and> NetworkStatus (BlockNetwork (delay e) e False rc s) = NetworkStatus s
            \<and> ControllerSwitchStatus (BlockNetwork (delay e) e False rc s) = ControllerSwitchStatus s)
       \<and> (\<not> rc \<longrightarrow>
            SwitchBoxSwitchStatus (BlockNetwork (delay e) e False rc s) = unknown
            \<and> serial (BlockNetwork (delay e) e False rc s) =
                serial s @
                  [''incoming unblock request'',
                   ''a request from the Switchbox to unblock network was denied as the Controller is requesting the network be blocked''
                     @ [CHR 0x0D, CHR 0x0A]])"
proof -
  let ?sc = "stateAtTheUnblockCheck (delay e) e rc s"
  have eq: "BlockNetwork (delay e) e False rc s =
           Serial_println
             (if ControllerSwitchStatus ?sc = blocked
              then ''a request from the Switchbox to unblock network was denied as the Controller is requesting the network be blocked''
              else ''a request from the Controller to unblock network was denied as the Switchbox is requesting the network be blocked'')
             ?sc"
    unfolding BlockNetwork_unblock [OF assms(1,2,3), of "delay e" rc] using assms(4) by auto
  have quiet: "gpioOut ?sc = gpioOut s \<and> NetworkStatus ?sc = NetworkStatus s
      \<and> ControllerSwitchStatus ?sc = ControllerSwitchStatus s"
    if "rc \<longrightarrow> noUnblockRequestsDuring e (now s) (now s + 2010)"
    using stateAtTheUnblockCheck_held [OF that, of "gpioOut s" "ControllerSwitchStatus s"]
      assms(1,2)
    by (simp add: blockedController_def)
  have peer: "SwitchBoxSwitchStatus ?sc = unknown \<and> ControllerSwitchStatus ?sc = blocked
      \<and> serial ?sc = serial s @ [''incoming unblock request'']"
    if "\<not> rc"
    using that assms(4)
    by (simp add: stateAtTheUnblockCheck_def Let_def Serial_fields Serial_print_def)
  show ?thesis
  proof (intro conjI impI)
    show "BlockNetwork (delay e) e False rc s =
           Serial_println
             (if ControllerSwitchStatus ?sc = blocked
              then ''a request from the Switchbox to unblock network was denied as the Controller is requesting the network be blocked''
              else ''a request from the Controller to unblock network was denied as the Switchbox is requesting the network be blocked'')
             ?sc"
      by (rule eq)
    show "gpioOut (BlockNetwork (delay e) e False rc s) = gpioOut ?sc"
      "NetworkStatus (BlockNetwork (delay e) e False rc s) = NetworkStatus ?sc"
      "ControllerSwitchStatus (BlockNetwork (delay e) e False rc s) = ControllerSwitchStatus ?sc"
      "SwitchBoxSwitchStatus (BlockNetwork (delay e) e False rc s) = SwitchBoxSwitchStatus ?sc"
      unfolding eq by (simp_all add: Serial_fields)
  next
    assume q: "rc \<longrightarrow> noUnblockRequestsDuring e (now s) (now s + 2010)"
    show "gpioOut (BlockNetwork (delay e) e False rc s) = gpioOut s"
      "NetworkStatus (BlockNetwork (delay e) e False rc s) = NetworkStatus s"
      "ControllerSwitchStatus (BlockNetwork (delay e) e False rc s) = ControllerSwitchStatus s"
      unfolding eq using quiet [OF q] by (simp_all add: Serial_fields)
  next
    assume n: "\<not> rc"
    show "SwitchBoxSwitchStatus (BlockNetwork (delay e) e False rc s) = unknown"
      unfolding eq using peer [OF n] by (simp add: Serial_fields)
    show "serial (BlockNetwork (delay e) e False rc s) =
                serial s @
                  [''incoming unblock request'',
                   ''a request from the Switchbox to unblock network was denied as the Controller is requesting the network be blocked''
                     @ [CHR 0x0D, CHR 0x0A]]"
      unfolding eq using peer [OF n] by (simp add: Serial_println_def)
  qed
qed

text \<open>The Controller, its own button engaged, denies its own request when nothing
  arrives during the wait, and denies a request of the Switchbox.\<close>

theorem unblock_denied_witness:
  "thisIsTheController controllerBlocked \<and> NetworkStatus controllerBlocked = blocked
   \<and> useASwitchbox controllerBench
   \<and> ControllerSwitchStatus (stateAtTheUnblockCheck (delay controllerBench) controllerBench True
          controllerBlocked) = blocked
   \<and> gpioOut (BlockNetwork (delay controllerBench) controllerBench False True controllerBlocked)
       = gpioOut controllerBlocked
   \<and> NetworkStatus (BlockNetwork (delay controllerBench) controllerBench False True
        controllerBlocked) = NetworkStatus controllerBlocked
   \<and> ControllerSwitchStatus (BlockNetwork (delay controllerBench) controllerBench False True
        controllerBlocked) = ControllerSwitchStatus controllerBlocked
   \<and> ControllerSwitchStatus (stateAtTheUnblockCheck (delay controllerBench) controllerBench False
          controllerBlocked) = blocked
   \<and> gpioOut (BlockNetwork (delay controllerBench) controllerBench False False controllerBlocked)
       = gpioOut controllerBlocked
   \<and> SwitchBoxSwitchStatus (BlockNetwork (delay controllerBench) controllerBench False False
        controllerBlocked) = unknown"
proof -
  have h: "thisIsTheController controllerBlocked" "NetworkStatus controllerBlocked = blocked"
    by (simp_all add: controllerBlocked_def)
  have u: "useASwitchbox controllerBench"
    by (simp add: controllerBench_def)
  have q: "noUnblockRequestsDuring controllerBench (now controllerBlocked)
      (now controllerBlocked + 2010)"
    by (simp add: noUnblockRequestsDuring_def controllerBench_def)
  have "blockedController (gpioOut controllerBlocked) blocked controllerBlocked"
    by (simp add: blockedController_def controllerBlocked_def)
  then have "blockedController (gpioOut controllerBlocked) blocked
      (stateAtTheUnblockCheck (delay controllerBench) controllerBench True controllerBlocked)"
    using q by (intro stateAtTheUnblockCheck_held) simp_all
  then have c: "ControllerSwitchStatus (stateAtTheUnblockCheck (delay controllerBench)
      controllerBench True controllerBlocked) = blocked"
    by (simp add: blockedController_def)
  have d: "ControllerSwitchStatus (stateAtTheUnblockCheck (delay controllerBench) controllerBench
          False controllerBlocked) = blocked"
    by (simp add: stateAtTheUnblockCheck_def Let_def Serial_fields controllerBlocked_def)
  show ?thesis
    using h u q c d
      unblock_denied [OF h u disjI1 [OF c]]
      unblock_denied [OF h u disjI1 [OF d]]
    by blast
qed

text \<open>The claim as it was stated fails, in two ways. The Controller, its own button
  engaged, believes the button of the Switchbox released and gets a request of the
  Switchbox to unblock: the request is denied, and \<^verbatim>\<open>SwitchBoxSwitchStatus\<close> has
  changed from unblocked to unknown. And the Controller, its button released, asks
  to unblock at 100 ms, handles a request of the Switchbox to unblock at 115 ms,
  during its wait, and gets the reply of the Switchbox, blocked, at 120 ms: its own
  request is denied because \<^verbatim>\<open>SwitchBoxSwitchStatus\<close> is blocked, and \<^verbatim>\<open>NetworkStatus\<close>
  has changed from blocked to unblocked during the call.\<close>

theorem unblock_denied_resets_SwitchBoxSwitchStatus:
  "thisIsTheController controllerBlocked \<and> NetworkStatus controllerBlocked = blocked
   \<and> useASwitchbox controllerBench
   \<and> ControllerSwitchStatus controllerBlocked = blocked
   \<and> SwitchBoxSwitchStatus controllerBlocked = unblocked
   \<and> NetworkStatus (BlockNetwork delay_cb controllerBench False False controllerBlocked) = blocked
   \<and> SwitchBoxSwitchStatus (BlockNetwork delay_cb controllerBench False False controllerBlocked)
       = unknown
   \<and> thisIsTheController controllerReleased \<and> NetworkStatus controllerReleased = blocked
   \<and> useASwitchbox raceBench
   \<and> SwitchBoxSwitchStatus
        (stateAtTheUnblockCheck (delay raceBench) raceBench True controllerReleased) = blocked
   \<and> serial (BlockNetwork (delay raceBench) raceBench False True controllerReleased) =
        serial (stateAtTheUnblockCheck (delay raceBench) raceBench True controllerReleased) @
          [''a request from the Controller to unblock network was denied as the Switchbox is requesting the network be blocked''
             @ [CHR 0x0D, CHR 0x0A]]
   \<and> NetworkStatus (BlockNetwork (delay raceBench) raceBench False True controllerReleased)
       = unblocked"
proof -
  have a: "thisIsTheController controllerBlocked \<and> NetworkStatus controllerBlocked = blocked
   \<and> useASwitchbox controllerBench
   \<and> ControllerSwitchStatus controllerBlocked = blocked
   \<and> SwitchBoxSwitchStatus controllerBlocked = unblocked
   \<and> NetworkStatus (BlockNetwork delay_cb controllerBench False False controllerBlocked) = blocked
   \<and> SwitchBoxSwitchStatus (BlockNetwork delay_cb controllerBench False False controllerBlocked)
       = unknown"
    by (simp add: controllerBlocked_def controllerBench_def powerOn_def BlockNetwork_def Let_def
        Serial_fields)
  have h: "thisIsTheController controllerReleased" "NetworkStatus controllerReleased = blocked"
    "useASwitchbox raceBench"
    by (simp_all add: controllerReleased_def controllerBlocked_def raceBench_def controllerBench_def)
  show ?thesis
    using a h BlockNetwork_race(2,3,5) by blast
qed

end
